theory Spec2Isabelle
  imports Complex_Main "HOL-Library.Sublist" "HOL-Library.AList"
begin

section \<open>Values of the host language\<close>

text \<open>
  The statistics core of the repository is Python over numpy, pandas and scipy.  Its
  numbers are modelled as follows.
  \<^item> A Python \<open>int\<close> is an \<open>int\<close>.  A store into a numpy array of \<open>dtype=int\<close> keeps the
    value when it fits the signed 64 bit range and raises \<open>OverflowError\<close> otherwise.
  \<^item> A float is a \<open>float64\<close>: a finite value, one of the two infinities, or NaN.  In the
    engines over data frames the arithmetic on finite values is the exact arithmetic of
    the reals: rounding, overflow to infinity and underflow are not modelled, and zero
    has no sign.  The chi-squared variance test is modelled with the range of a double:
    see its section.
  \<^item> A missing value (\<open>None\<close> or NaN) of a data frame is \<open>Num NaN\<close>, as \<open>isna\<close> and
    \<open>notna\<close> treat both alike.
\<close>

datatype error =
    ValueError string
  | KeyError string
  | TypeError string
  | OverflowError string
  | AttributeError string

datatype float64 = Fin real | PInf | NInf | NaN

datatype cell = Str string | Num float64

fun isnan :: "float64 \<Rightarrow> bool" where
  "isnan NaN = True"
| "isnan _ = False"

fun isinf :: "float64 \<Rightarrow> bool" where
  "isinf PInf = True"
| "isinf NInf = True"
| "isinf _ = False"

definition finf :: "bool \<Rightarrow> float64" where
  "finf positive = (if positive then PInf else NInf)"

fun fneg :: "float64 \<Rightarrow> float64" where
  "fneg (Fin x) = Fin (- x)"
| "fneg PInf = NInf"
| "fneg NInf = PInf"
| "fneg NaN = NaN"

fun fadd :: "float64 \<Rightarrow> float64 \<Rightarrow> float64" where
  "fadd NaN _ = NaN"
| "fadd _ NaN = NaN"
| "fadd (Fin x) (Fin y) = Fin (x + y)"
| "fadd PInf NInf = NaN"
| "fadd NInf PInf = NaN"
| "fadd PInf _ = PInf"
| "fadd _ PInf = PInf"
| "fadd NInf _ = NInf"
| "fadd _ NInf = NInf"

definition fsub :: "float64 \<Rightarrow> float64 \<Rightarrow> float64" where
  "fsub a b = fadd a (fneg b)"

fun fmul :: "float64 \<Rightarrow> float64 \<Rightarrow> float64" where
  "fmul NaN _ = NaN"
| "fmul _ NaN = NaN"
| "fmul (Fin x) (Fin y) = Fin (x * y)"
| "fmul (Fin x) b = (if x = 0 then NaN else finf ((0 < x) = (b = PInf)))"
| "fmul a (Fin y) = (if y = 0 then NaN else finf ((0 < y) = (a = PInf)))"
| "fmul a b = finf (a = b)"

fun fdiv :: "float64 \<Rightarrow> float64 \<Rightarrow> float64" where
  "fdiv NaN _ = NaN"
| "fdiv _ NaN = NaN"
| "fdiv (Fin x) (Fin y) =
     (if y = 0 then (if x = 0 then NaN else finf (0 < x)) else Fin (x / y))"
| "fdiv (Fin x) b = Fin 0"
| "fdiv a (Fin y) = finf ((0 \<le> y) = (a = PInf))"
| "fdiv a b = NaN"

text \<open>Comparisons with NaN are false, as in IEEE 754.\<close>

fun fle :: "float64 \<Rightarrow> float64 \<Rightarrow> bool" where
  "fle NaN _ = False"
| "fle _ NaN = False"
| "fle (Fin x) (Fin y) = (x \<le> y)"
| "fle NInf _ = True"
| "fle _ PInf = True"
| "fle _ _ = False"

fun notna :: "cell \<Rightarrow> bool" where
  "notna (Str s) = True"
| "notna (Num x) = (\<not> isnan x)"

definition isna :: "cell \<Rightarrow> bool" where
  "isna c = (\<not> notna c)"

text \<open>The number in a cell.\<close>

definition cell_float :: "cell \<Rightarrow> float64" where
  "cell_float c = (case c of Num x \<Rightarrow> x | Str s \<Rightarrow> NaN)"

text \<open>A step that may raise, followed by the rest of the computation.\<close>

definition ebind :: "error + 'a \<Rightarrow> ('a \<Rightarrow> error + 'b) \<Rightarrow> error + 'b" where
  "ebind m f = (case m of Inl e \<Rightarrow> Inl e | Inr x \<Rightarrow> f x)"

text \<open>Decimal rendering of integers, as an f-string prints them.\<close>

definition digit_char :: "nat \<Rightarrow> char" where
  "digit_char d = ''0123456789'' ! d"

function show_nat :: "nat \<Rightarrow> string" where
  "show_nat n = (if n < 10 then [digit_char n] else show_nat (n div 10) @ [digit_char (n mod 10)])"
  by pat_completeness auto
termination
  by (relation "measure (\<lambda>n. n)") auto

definition show_int :: "int \<Rightarrow> string" where
  "show_int i = (if i < 0 then ''-'' @ show_nat (nat (- i)) else show_nat (nat i))"

section \<open>utils.py: contingency_table_binary\<close>

text \<open>
  \<^verbatim>\<open>
  labels = list(group_count.keys())
  table = np.zeros((len(labels), 2), dtype=int)
  for i, g in enumerate(labels):
      success = group_count[g]
      total = group_total[g]
      if success > total:
          raise ValueError(...)
      table[i, 0] = success
      table[i, 1] = total - success
  return table
  \<close>
  \<open>group_count\<close> is a dictionary read in key order: an association list with one pair per
  key.  \<open>group_total\<close> is only looked up: a map.  The table is the list of its rows.
\<close>

definition int64_fits :: "int \<Rightarrow> bool" where
  "int64_fits v = (- (2 ^ 63) \<le> v \<and> v < 2 ^ 63)"

definition store_int64 :: "int \<Rightarrow> error + int" where
  "store_int64 v =
     (if int64_fits v then Inr v
      else Inl (OverflowError ''Python int too large to convert to C long''))"

definition invalid_group_message :: "string \<Rightarrow> int \<Rightarrow> int \<Rightarrow> string" where
  "invalid_group_message g success total_count =
     ''Invalid data for group '' @ [CHR 0x27] @ g @ [CHR 0x27] @ '': success count (''
       @ show_int success @ '') exceeds total count ('' @ show_int total_count @ '')''"

fun contingency_table_binary ::
  "(string \<times> int) list \<Rightarrow> (string \<rightharpoonup> int) \<Rightarrow> error + int list list" where
  "contingency_table_binary [] group_total = Inr []"
| "contingency_table_binary ((g, success) # rest) group_total =
     (case group_total g of
        None \<Rightarrow> Inl (KeyError g)
      | Some total_count \<Rightarrow>
          if success > total_count
          then Inl (ValueError (invalid_group_message g success total_count))
          else
            (case store_int64 success of
               Inl e \<Rightarrow> Inl e
             | Inr a \<Rightarrow>
                 (case store_int64 (total_count - success) of
                    Inl e \<Rightarrow> Inl e
                  | Inr b \<Rightarrow>
                      (case contingency_table_binary rest group_total of
                         Inl e \<Rightarrow> Inl e
                       | Inr rows \<Rightarrow> Inr ([a, b] # rows)))))"

section \<open>statistical_tests.py: chi_square_variance_test\<close>

text \<open>
  The test computes on doubles.  The result of an operation on finite doubles is the
  exact result brought into the range of a double: a result whose magnitude reaches
  \<open>(2 - 2\<^sup>-\<^sup>5\<^sup>3) * 2\<^sup>1\<^sup>0\<^sup>2\<^sup>3\<close>, where rounding to nearest leaves the finite doubles, is an
  infinity.  Rounding within the range is not modelled.
\<close>

definition overflow_threshold :: real where
  "overflow_threshold = (2 ^ 54 - 1) * 2 ^ 970"

definition to_double :: "real \<Rightarrow> float64" where
  "to_double x = (if overflow_threshold \<le> \<bar>x\<bar> then finf (0 < x) else Fin x)"

fun in_range :: "float64 \<Rightarrow> float64" where
  "in_range (Fin x) = to_double x"
| "in_range a = a"

text \<open>
  The operations of numpy on \<open>float64\<close> scalars and arrays: an overflow and a division
  by zero give an infinity or NaN and a warning, never an exception.
\<close>

definition np_add :: "float64 \<Rightarrow> float64 \<Rightarrow> float64" where
  "np_add a b = in_range (fadd a b)"

definition np_subtract :: "float64 \<Rightarrow> float64 \<Rightarrow> float64" where
  "np_subtract a b = in_range (fsub a b)"

definition np_multiply :: "float64 \<Rightarrow> float64 \<Rightarrow> float64" where
  "np_multiply a b = in_range (fmul a b)"

definition np_divide :: "float64 \<Rightarrow> float64 \<Rightarrow> float64" where
  "np_divide a b = in_range (fdiv a b)"

text \<open>
  \<open>sigma0 ** 2\<close> on a Python float: \<open>float.__pow__\<close> raises \<open>OverflowError\<close> when the
  result overflows, and returns \<open>0.0\<close> when it underflows to zero, which rounding to
  nearest does up to half of the least positive double, \<open>2\<^sup>-\<^sup>1\<^sup>0\<^sup>7\<^sup>5\<close>.
\<close>

definition underflow_threshold :: real where
  "underflow_threshold = 1 / 2 ^ 1075"

definition float_pow2 :: "real \<Rightarrow> error + float64" where
  "float_pow2 x =
     (if overflow_threshold \<le> x ^ 2
      then Inl (OverflowError (''(34, '' @ [CHR 0x27] @ ''Numerical result out of range''
                                 @ [CHR 0x27] @ '')''))
      else if x ^ 2 \<le> underflow_threshold then Inr (Fin 0)
      else Inr (Fin (x ^ 2)))"

text \<open>
  \<open>np.var(zscores, ddof=1)\<close>, as numpy computes it: the sum of the array divided by its
  length, the deviations from this mean, their squares, and the sum of the squares
  divided by \<open>max(N - ddof, 0)\<close>.  The sums are written from left to right; numpy adds
  the entries of a long array in blocks, which gives the same value whenever no partial
  sum overflows.
\<close>

definition np_sum :: "float64 list \<Rightarrow> float64" where
  "np_sum xs = foldl np_add (Fin 0) xs"

definition np_var :: "float64 list \<Rightarrow> nat \<Rightarrow> float64" where
  "np_var arr ddof =
     (let arrmean = np_divide (np_sum arr) (Fin (real (length arr)));
          x = map (\<lambda>a. np_subtract a arrmean) arr;
          x = map (\<lambda>a. np_multiply a a) x
      in np_divide (np_sum x) (Fin (real (length arr - ddof))))"

text \<open>
  The array handed to the test is a list of cells: a numeric array holds \<open>Num\<close> cells only,
  and \<open>np.isnan\<close> raises \<open>TypeError\<close> on an array of objects that holds a string.
\<close>

fun is_str :: "cell \<Rightarrow> bool" where
  "is_str (Str s) = True"
| "is_str (Num x) = False"

fun cell_nan_or_inf :: "cell \<Rightarrow> bool" where
  "cell_nan_or_inf (Num x) = (isnan x \<or> isinf x)"
| "cell_nan_or_inf (Str s) = False"

fun cell_real :: "cell \<Rightarrow> real" where
  "cell_real (Num (Fin x)) = x"
| "cell_real _ = 0"

fun is_finite_cell :: "cell \<Rightarrow> bool" where
  "is_finite_cell (Num (Fin x)) = True"
| "is_finite_cell _ = False"

text \<open>
  \<open>chi2.cdf\<close> of scipy is a parameter: \<open>cdf x k\<close> is the chi-squared distribution function
  with \<open>k\<close> degrees of freedom at a finite \<open>x\<close>.  At the upper end of the support scipy
  returns 1, below the support 0, and at NaN it returns NaN.
\<close>

definition chi2_cdf_at :: "(real \<Rightarrow> nat \<Rightarrow> real) \<Rightarrow> float64 \<Rightarrow> nat \<Rightarrow> float64" where
  "chi2_cdf_at cdf x k =
     (case x of Fin r \<Rightarrow> Fin (cdf r k) | PInf \<Rightarrow> Fin 1 | NInf \<Rightarrow> Fin 0 | NaN \<Rightarrow> NaN)"

text \<open>
  \<open>min(a, b)\<close> of Python keeps its first argument unless the second is less: a comparison
  with NaN is false.
\<close>

fun flt :: "float64 \<Rightarrow> float64 \<Rightarrow> bool" where
  "flt NaN _ = False"
| "flt _ NaN = False"
| "flt (Fin x) (Fin y) = (x < y)"
| "flt PInf _ = False"
| "flt _ NInf = False"
| "flt _ _ = True"

definition py_min :: "float64 \<Rightarrow> float64 \<Rightarrow> float64" where
  "py_min a b = (if flt b a then b else a)"

text \<open>
  \<^verbatim>\<open>
  sample_var = np.var(zscores, ddof=1)
  chi2_stat = (len(zscores) - 1) * sample_var / sigma0**2
  p_value = 2 * min(chi2.cdf(chi2_stat, df=len(zscores) - 1),
                    1 - chi2.cdf(chi2_stat, df=len(zscores) - 1))
  return p_value, chi2_stat
  \<close>
  \<open>sigma0\<close> is a finite Python float.  The result is the pair \<open>(p_value, chi2_stat)\<close>.
\<close>

definition chi_square_variance_test ::
  "(real \<Rightarrow> nat \<Rightarrow> real) \<Rightarrow> cell list \<Rightarrow> real \<Rightarrow> error + (float64 \<times> float64)" where
  "chi_square_variance_test cdf zscores sigma0 =
     (if length zscores = 0 then Inl (ValueError ''zscores must not be empty'')
      else if length zscores < 2
        then Inl (ValueError ''zscores must have at least 2 elements to compute variance'')
      else if list_ex is_str zscores
        then Inl (TypeError ''ufunc isnan not supported for the input types'')
      else if list_ex cell_nan_or_inf zscores
        then Inl (ValueError ''zscores contains NaN or infinite values'')
      else if sigma0 \<le> 0 then Inl (ValueError ''sigma0 must be positive'')
      else
        (let sample_var = np_var (map cell_float zscores) 1;
             numerator = np_multiply (Fin (real (length zscores - 1))) sample_var
         in ebind (float_pow2 sigma0) (\<lambda>sigma0_squared.
              let chi2_stat = np_divide numerator sigma0_squared;
                  cdf_value = chi2_cdf_at cdf chi2_stat (length zscores - 1);
                  p_value = np_multiply (Fin 2) (py_min cdf_value (np_subtract (Fin 1) cdf_value))
              in Inr (p_value, chi2_stat))))"

text \<open>
  The statistic and the p-value as the specification words them: the sample variance with
  \<open>n - 1\<close> in the denominator, and the two-tailed p-value of a distribution function \<open>F\<close>.
\<close>

definition sample_variance :: "real list \<Rightarrow> real" where
  "sample_variance xs =
     (\<Sum>x\<leftarrow>xs. (x - sum_list xs / real (length xs)) ^ 2) / (real (length xs) - 1)"

definition spec_chi2_stat :: "real list \<Rightarrow> real \<Rightarrow> real" where
  "spec_chi2_stat xs sigma0 = (real (length xs) - 1) * sample_variance xs / sigma0 ^ 2"

definition spec_two_tailed :: "(real \<Rightarrow> real) \<Rightarrow> real \<Rightarrow> real" where
  "spec_two_tailed F x = 2 * min (F x) (1 - F x)"

section \<open>Data frames\<close>

text \<open>
  A pandas data frame is its ordered list of column labels and its rows in order.  A row
  is its index label and the cell it holds under each column label; what the function
  returns outside the column labels of the frame is never read.  Operations that pandas
  performs on whole columns act on every row alike, so they are written row by row; an
  operation that raises on one element raises for the column.
\<close>

record dataframe =
  df_columns :: "string list"
  df_rows :: "(nat \<times> (string \<Rightarrow> cell)) list"

fun sequence_err :: "(error + 'a) list \<Rightarrow> error + 'a list" where
  "sequence_err [] = Inr []"
| "sequence_err (m # ms) =
     (case m of
        Inl e \<Rightarrow> Inl e
      | Inr x \<Rightarrow> (case sequence_err ms of Inl e \<Rightarrow> Inl e | Inr xs \<Rightarrow> Inr (x # xs)))"

definition df_empty :: "dataframe \<Rightarrow> bool" where
  "df_empty d = (df_rows d = [] \<or> df_columns d = [])"

definition df_len :: "dataframe \<Rightarrow> nat" where
  "df_len d = length (df_rows d)"

text \<open>\<open>df.filter(regex="(pat)").columns\<close>: the labels in which \<open>re.search\<close> finds \<open>pat\<close>.\<close>

definition filter_regex :: "string \<Rightarrow> string list \<Rightarrow> string list" where
  "filter_regex pat cols = filter (sublist pat) cols"

definition select_rows :: "((string \<Rightarrow> cell) \<Rightarrow> bool) \<Rightarrow> dataframe \<Rightarrow> dataframe" where
  "select_rows keep d = d\<lparr>df_rows := filter (\<lambda>(i, r). keep r) (df_rows d)\<rparr>"

text \<open>\<open>df[df[c] == s]\<close>: \<open>KeyError\<close> when the frame has no column \<open>c\<close>.\<close>

definition select_eq :: "dataframe \<Rightarrow> string \<Rightarrow> string \<Rightarrow> error + dataframe" where
  "select_eq d c s =
     (if c \<in> set (df_columns d) then Inr (select_rows (\<lambda>r. r c = Str s) d)
      else Inl (KeyError c))"

definition add_column :: "string \<Rightarrow> string list \<Rightarrow> string list" where
  "add_column c cols = (if c \<in> set cols then cols else cols @ [c])"

text \<open>\<open>df[c] = f(row)\<close>: the column \<open>c\<close> is overwritten, or appended as the last column.\<close>

definition assign_column ::
  "string \<Rightarrow> ((string \<Rightarrow> cell) \<Rightarrow> cell) \<Rightarrow> dataframe \<Rightarrow> dataframe" where
  "assign_column c f d =
     \<lparr>df_columns = add_column c (df_columns d),
      df_rows = map (\<lambda>(i, r). (i, r(c := f r))) (df_rows d)\<rparr>"

text \<open>
  \<open>df[cols].sum(axis=1)\<close> and \<open>df[cols].mean(axis=1)\<close> skip missing values.  On a column of
  strings they raise \<open>TypeError\<close> (pandas 2); the callers check that first.
\<close>

definition present_values :: "string list \<Rightarrow> (string \<Rightarrow> cell) \<Rightarrow> float64 list" where
  "present_values cols r = filter (\<lambda>x. \<not> isnan x) (map (\<lambda>c. cell_float (r c)) cols)"

definition row_sum :: "string list \<Rightarrow> (string \<Rightarrow> cell) \<Rightarrow> float64" where
  "row_sum cols r = foldl fadd (Fin 0) (present_values cols r)"

definition row_mean :: "string list \<Rightarrow> (string \<Rightarrow> cell) \<Rightarrow> float64" where
  "row_mean cols r =
     (if present_values cols r = [] then NaN
      else fdiv (row_sum cols r) (Fin (real (length (present_values cols r)))))"

definition has_str :: "string list \<Rightarrow> dataframe \<Rightarrow> bool" where
  "has_str cols d = list_ex (\<lambda>(i, r). list_ex (\<lambda>c. is_str (r c)) cols) (df_rows d)"

section \<open>utils.py: process_categorical_variables\<close>

text \<open>
  \<^verbatim>\<open>
  if df is None or df.empty:
      return df
  if total_sample_size <= 0:
      raise ValueError("total_sample_size must be positive")
  cat_df = df.copy()
  cat_df = cat_df[cat_df["Variable type"] == "Categorical"]
  count_cols = cat_df.filter(regex="(count)").columns
  cat_df = cat_df[cat_df[count_cols].notna().all(axis=1)]
  cat_df["population_rate"] = cat_df[count_cols].sum(axis=1) / total_sample_size
  return cat_df
  \<close>
\<close>

definition count_cols_of :: "dataframe \<Rightarrow> string list" where
  "count_cols_of d = filter_regex ''count'' (df_columns d)"

definition counts_complete :: "string list \<Rightarrow> (string \<Rightarrow> cell) \<Rightarrow> bool" where
  "counts_complete count_cols r = list_all (\<lambda>c. notna (r c)) count_cols"

definition population_rate :: "string list \<Rightarrow> int \<Rightarrow> (string \<Rightarrow> cell) \<Rightarrow> cell" where
  "population_rate count_cols total_sample_size r =
     Num (fdiv (row_sum count_cols r) (Fin (real_of_int total_sample_size)))"

definition process_categorical_variables ::
  "dataframe option \<Rightarrow> int \<Rightarrow> error + dataframe option" where
  "process_categorical_variables df total_sample_size =
     (case df of
        None \<Rightarrow> Inr None
      | Some d \<Rightarrow>
          if df_empty d then Inr df
          else if total_sample_size \<le> 0
            then Inl (ValueError ''total_sample_size must be positive'')
          else
            ebind (select_eq d ''Variable type'' ''Categorical'') (\<lambda>cat_df.
              let count_cols = count_cols_of cat_df;
                  cat_df = select_rows (counts_complete count_cols) cat_df
              in if has_str count_cols cat_df
                 then Inl (TypeError ''unsupported operand type(s)'')
                 else Inr (Some (assign_column ''population_rate''
                        (population_rate count_cols total_sample_size) cat_df))))"

section \<open>utils.py: process_continuous_variables_mean\<close>

text \<open>
  The body of the loop over \<open>group_ids\<close>, for one group and its sample size \<open>n\<close>:
  \<^verbatim>\<open>
  if mean_df[sd_col].isna().any():
      missing_sd_mask = mean_df[sd_col].isna()
      if mean_df.loc[missing_sd_mask, [ci_lower_col, ci_upper_col]].isna().any().any():
          raise ValueError(f"Cannot compute SD for {group}: ...")
      ci_width = (mean_df.loc[missing_sd_mask, ci_upper_col]
                  - mean_df.loc[missing_sd_mask, ci_lower_col])
      mean_df.loc[missing_sd_mask, sd_col] = (ci_width / (2 * 1.96)) * np.sqrt(sample_size[group])
  sem = mean_df[sd_col] / np.sqrt(sample_size[group])
  if (sem == 0).any():
      raise ValueError(f"SEM is zero for group {group}, cannot compute z-scores")
  zscore = (mean_df[mean_col] - mean_df["population_mean"]) / sem
  mean_df[z_col] = zscore
  mean_df[sem_col] = sem
  \<close>
\<close>

definition cannot_compute_sd :: "string \<Rightarrow> string" where
  "cannot_compute_sd g =
     ''Cannot compute SD for '' @ g @ '': both SD and confidence intervals are missing''"

definition sem_is_zero :: "string \<Rightarrow> string" where
  "sem_is_zero g = ''SEM is zero for group '' @ g @ '', cannot compute z-scores''"

definition sqrt_n :: "int \<Rightarrow> float64" where
  "sqrt_n n = Fin (sqrt (real_of_int n))"

definition imputed_sd :: "string \<Rightarrow> int \<Rightarrow> (string \<Rightarrow> cell) \<Rightarrow> cell" where
  "imputed_sd g n r =
     (let ci_width = fsub (cell_float (r (g @ '' (95CI_upper)'')))
                          (cell_float (r (g @ '' (95CI_lower)'')))
      in Num (fmul (fdiv ci_width (Fin (2 * 1.96))) (sqrt_n n)))"

definition impute_row :: "string \<Rightarrow> int \<Rightarrow> (string \<Rightarrow> cell) \<Rightarrow> (string \<Rightarrow> cell)" where
  "impute_row g n r =
     (if isna (r (g @ '' (sd)'')) then r(g @ '' (sd)'' := imputed_sd g n r) else r)"

definition impute_sd :: "dataframe \<Rightarrow> string \<Rightarrow> int \<Rightarrow> error + dataframe" where
  "impute_sd mean_df g n =
     (let sd_col = g @ '' (sd)'';
          ci_lower_col = g @ '' (95CI_lower)'';
          ci_upper_col = g @ '' (95CI_upper)'';
          missing = filter (\<lambda>(i, r). isna (r sd_col)) (df_rows mean_df)
      in if ci_lower_col \<notin> set (df_columns mean_df) then Inl (KeyError ci_lower_col)
         else if ci_upper_col \<notin> set (df_columns mean_df) then Inl (KeyError ci_upper_col)
         else if list_ex (\<lambda>(i, r). isna (r ci_lower_col) \<or> isna (r ci_upper_col)) missing
           then Inl (ValueError (cannot_compute_sd g))
         else if list_ex (\<lambda>(i, r). is_str (r ci_lower_col) \<or> is_str (r ci_upper_col)) missing
           then Inl (TypeError ''unsupported operand type(s)'')
         else Inr (mean_df\<lparr>df_rows := map (\<lambda>(i, r). (i, impute_row g n r)) (df_rows mean_df)\<rparr>))"

definition sem_of :: "string \<Rightarrow> int \<Rightarrow> (string \<Rightarrow> cell) \<Rightarrow> float64" where
  "sem_of g n r = fdiv (cell_float (r (g @ '' (sd)''))) (sqrt_n n)"

definition zscore_of :: "string \<Rightarrow> int \<Rightarrow> (string \<Rightarrow> cell) \<Rightarrow> float64" where
  "zscore_of g n r =
     fdiv (fsub (cell_float (r (g @ '' (mean)''))) (cell_float (r ''population_mean'')))
          (sem_of g n r)"

definition group_step :: "dataframe \<Rightarrow> string \<Rightarrow> int \<Rightarrow> error + dataframe" where
  "group_step mean_df g n =
     (let mean_col = g @ '' (mean)'';
          sd_col = g @ '' (sd)'';
          sem_col = g @ '' (sem)'';
          z_col = g @ '' (zscore)''
      in if sd_col \<notin> set (df_columns mean_df) then Inl (KeyError sd_col)
         else
           ebind (if list_ex (\<lambda>(i, r). isna (r sd_col)) (df_rows mean_df)
                  then impute_sd mean_df g n else Inr mean_df) (\<lambda>mean_df.
             if has_str [sd_col] mean_df then Inl (TypeError ''unsupported operand type(s)'')
             else if list_ex (\<lambda>(i, r). sem_of g n r = Fin 0) (df_rows mean_df)
               then Inl (ValueError (sem_is_zero g))
             else if mean_col \<notin> set (df_columns mean_df) then Inl (KeyError mean_col)
             else if ''population_mean'' \<notin> set (df_columns mean_df)
               then Inl (KeyError ''population_mean'')
             else if has_str [mean_col, ''population_mean''] mean_df
               then Inl (TypeError ''unsupported operand type(s)'')
             else Inr
               \<lparr>df_columns = add_column sem_col (add_column z_col (df_columns mean_df)),
                df_rows = map (\<lambda>(i, r). (i, r(z_col := Num (zscore_of g n r),
                                                 sem_col := Num (sem_of g n r))))
                              (df_rows mean_df)\<rparr>))"

text \<open>
  \<open>for group in group_ids\<close>, with \<open>group_ids = list(sample_size.keys())\<close>: the dictionary
  \<open>sample_size\<close> is an association list with one pair per key, read in key order.
\<close>

fun group_loop :: "dataframe \<Rightarrow> (string \<times> int) list \<Rightarrow> error + dataframe" where
  "group_loop mean_df [] = Inr mean_df"
| "group_loop mean_df ((g, n) # rest) =
     (case group_step mean_df g n of
        Inl e \<Rightarrow> Inl e
      | Inr mean_df' \<Rightarrow> group_loop mean_df' rest)"

text \<open>
  \<^verbatim>\<open>
  if df is None or df.empty:
      return df
  if not sample_size:
      raise ValueError("sample_size must not be empty")
  if any(s <= 0 for s in sample_size.values()):
      raise ValueError("All sample sizes must be positive")
  group_ids = list(sample_size.keys())
  mean_df = df.copy()
  mean_df = mean_df[mean_df["Variable type"] == "Continuous"]
  mean_cols = mean_df.filter(regex="(mean)").columns
  mean_df = mean_df[mean_df[mean_cols].notna().any(axis=1)]
  mean_df["population_mean"] = mean_df[mean_cols].mean(axis=1)
  for group in group_ids: ...
  return mean_df
  \<close>
\<close>

definition mean_cols_of :: "dataframe \<Rightarrow> string list" where
  "mean_cols_of d = filter_regex ''mean'' (df_columns d)"

definition any_mean :: "string list \<Rightarrow> (string \<Rightarrow> cell) \<Rightarrow> bool" where
  "any_mean mean_cols r = list_ex (\<lambda>c. notna (r c)) mean_cols"

definition process_continuous_variables_mean ::
  "dataframe option \<Rightarrow> (string \<times> int) list \<Rightarrow> error + dataframe option" where
  "process_continuous_variables_mean df sample_size =
     (case df of
        None \<Rightarrow> Inr None
      | Some d \<Rightarrow>
          if df_empty d then Inr df
          else if sample_size = [] then Inl (ValueError ''sample_size must not be empty'')
          else if list_ex (\<lambda>(g, s). s \<le> 0) sample_size
            then Inl (ValueError ''All sample sizes must be positive'')
          else
            ebind (select_eq d ''Variable type'' ''Continuous'') (\<lambda>mean_df.
              let mean_cols = mean_cols_of mean_df;
                  mean_df = select_rows (any_mean mean_cols) mean_df
              in if has_str mean_cols mean_df
                 then Inl (TypeError ''unsupported operand type(s)'')
                 else
                   ebind (group_loop
                            (assign_column ''population_mean''
                               (\<lambda>r. Num (row_mean mean_cols r)) mean_df)
                            sample_size)
                     (\<lambda>mean_df. Inr (Some mean_df))))"

section \<open>table_extraction/utils.py: to_csv_wide\<close>

text \<open>
  The extraction that the pipeline receives, typed as the schema of the repository types
  it: a group has an id and an integer sample size; a value entry has a group id, the
  original text and optional numbers, of which \<open>count\<close> is an integer.
\<close>

record group =
  g_group_id :: string
  g_label :: string
  g_sample_size :: int

record value_entry =
  v_group_id :: string
  v_original :: string
  v_mean :: "real option"
  v_median :: "real option"
  v_count :: "int option"
  v_IQR_lower :: "real option"
  v_IQR_upper :: "real option"
  v_95CI_lower :: "real option"
  v_95CI_upper :: "real option"
  v_sd :: "real option"
  v_pvalue :: "real option"

record table_row =
  r_variable :: string
  r_variable_type :: string
  r_level :: "string option"
  r_values :: "value_entry list"

record json_data =
  j_groups :: "group list"
  j_rows :: "table_row list"

text \<open>\<open>_to_numeric\<close>: \<open>None\<close> stays missing, otherwise \<open>float(value)\<close> or \<open>int(value)\<close>.\<close>

definition to_numeric :: "real option \<Rightarrow> cell" where
  "to_numeric value = (case value of None \<Rightarrow> Num NaN | Some x \<Rightarrow> Num (Fin x))"

definition to_numeric_as_int :: "int option \<Rightarrow> cell" where
  "to_numeric_as_int value = (case value of None \<Rightarrow> Num NaN | Some k \<Rightarrow> Num (Fin (real_of_int k)))"

definition value_fields :: "value_entry \<Rightarrow> (string \<times> cell) list" where
  "value_fields v =
     (let gid = v_group_id v in
      [(gid @ '' (original)'', Str (v_original v)),
       (gid @ '' (mean)'', to_numeric (v_mean v)),
       (gid @ '' (median)'', to_numeric (v_median v)),
       (gid @ '' (count)'', to_numeric_as_int (v_count v)),
       (gid @ '' (IQR_lower)'', to_numeric (v_IQR_lower v)),
       (gid @ '' (IQR_upper)'', to_numeric (v_IQR_upper v)),
       (gid @ '' (95CI_lower)'', to_numeric (v_95CI_lower v)),
       (gid @ '' (95CI_upper)'', to_numeric (v_95CI_upper v)),
       (gid @ '' (sd)'', to_numeric (v_sd v)),
       (gid @ '' (pvalue)'', to_numeric (v_pvalue v))])"

text \<open>A dictionary under construction: a key set again keeps its place and takes the new value.\<close>

definition dict_set :: "(string \<times> 'v) list \<Rightarrow> string \<times> 'v \<Rightarrow> (string \<times> 'v) list" where
  "dict_set d kv = AList.update (fst kv) (snd kv) d"

definition level_str :: "table_row \<Rightarrow> string" where
  "level_str row =
     (if r_variable_type row = ''Categorical''
      then '' ('' @ (case r_level row of None \<Rightarrow> ''None'' | Some l \<Rightarrow> l) @ '')''
      else [])"

definition wide_record :: "table_row \<Rightarrow> (string \<times> cell) list" where
  "wide_record row =
     foldl (\<lambda>record v. foldl dict_set record (value_fields v))
       [(''Variable'', Str (r_variable row @ level_str row)),
        (''Variable type'', Str (r_variable_type row))]
       (r_values row)"

text \<open>
  \<open>pd.DataFrame(rows)\<close> of a list of dictionaries: the columns are the keys in the order
  of their first appearance, the index is \<open>0, 1, ...\<close>, and a key that a dictionary
  lacks gives a missing cell.
\<close>

definition first_seen :: "string list \<Rightarrow> string list" where
  "first_seen ks = rev (remdups (rev ks))"

definition record_cells :: "(string \<times> cell) list \<Rightarrow> string \<Rightarrow> cell" where
  "record_cells record c = (case map_of record c of None \<Rightarrow> Num NaN | Some x \<Rightarrow> x)"

definition DataFrame :: "(string \<times> cell) list list \<Rightarrow> dataframe" where
  "DataFrame records =
     \<lparr>df_columns = first_seen (concat (map (map fst) records)),
      df_rows = zip [0..<length records] (map record_cells records)\<rparr>"

definition to_csv_wide :: "json_data \<Rightarrow> dataframe" where
  "to_csv_wide json = DataFrame (map wide_record (j_rows json))"

section \<open>pipeline.py: run_test_pipeline\<close>

text \<open>
  The functions of scipy that the pipeline calls are parameters.  \<open>chi2_cdf x k\<close> is
  \<open>chi2.cdf(x, df=k)\<close>.  \<open>default_rng seed\<close> is the generator \<open>np.random.default_rng(seed)\<close>.
  \<open>fisher_exact(table, method=None)\<close> is \<open>fisher_exact_default\<close>; with
  \<open>method=MonteCarloMethod(rng=rng)\<close> it is \<open>fisher_exact_monte_carlo\<close>, which draws from
  the generator and leaves it advanced.  \<open>combine_pvalues(pvals, method="fisher")\<close> is
  \<open>combine_pvalues_fisher\<close>.  Each returns the pair \<open>(statistic, pvalue)\<close> or raises.
\<close>

record 'g scipy =
  chi2_cdf :: "real \<Rightarrow> nat \<Rightarrow> real"
  default_rng :: "int option \<Rightarrow> 'g"
  fisher_exact_default :: "int list list \<Rightarrow> error + (float64 \<times> float64)"
  fisher_exact_monte_carlo :: "int list list \<Rightarrow> 'g \<Rightarrow> error + ((float64 \<times> float64) \<times> 'g)"
  combine_pvalues_fisher :: "float64 list \<Rightarrow> error + (float64 \<times> float64)"

text \<open>The \<open>method\<close> argument: \<open>None\<close>, or a Monte Carlo method holding its generator.\<close>

definition fisher_exact ::
  "'g scipy \<Rightarrow> int list list \<Rightarrow> 'g option \<Rightarrow> error + ((float64 \<times> float64) \<times> 'g option)" where
  "fisher_exact env table method =
     (case method of
        None \<Rightarrow> ebind (fisher_exact_default env table) (\<lambda>res. Inr (res, None))
      | Some rng \<Rightarrow>
          ebind (fisher_exact_monte_carlo env table rng) (\<lambda>(res, rng'). Inr (res, Some rng')))"

text \<open>The records of the result bundle, one shape for each kind of test.\<close>

datatype test_result =
    ChiSquaredVariance float64 float64 "cell list"
  | FisherTest float64 float64 "int list list" cell bool
  | FisherCombined float64 float64

fun res_p_value :: "test_result \<Rightarrow> float64" where
  "res_p_value (ChiSquaredVariance p t z) = p"
| "res_p_value (FisherTest p t c v b) = p"
| "res_p_value (FisherCombined p t) = p"

fun res_test_statistic :: "test_result \<Rightarrow> float64" where
  "res_test_statistic (ChiSquaredVariance p t z) = t"
| "res_test_statistic (FisherTest p t c v b) = t"
| "res_test_statistic (FisherCombined p t) = t"

type_synonym result_bundle = "string \<rightharpoonup> test_result"

text \<open>
  \<open>sample_size = {g["group_id"]: g["sample_size"] for g in json_data["groups"]}\<close>,
  \<open>total_sample_size = np.sum([s for _, s in sample_size.items()])\<close>.
\<close>

definition sample_size_of :: "json_data \<Rightarrow> (string \<times> int) list" where
  "sample_size_of json =
     foldl dict_set [] (map (\<lambda>g. (g_group_id g, g_sample_size g)) (j_groups json))"

definition total_sample_size_of :: "(string \<times> int) list \<Rightarrow> int" where
  "total_sample_size_of sample_size = sum_list (map snd sample_size)"

text \<open>\<open>cont_df.filter(regex="(zscore)").values.flatten()\<close>: row after row.\<close>

definition zscores_of :: "dataframe \<Rightarrow> cell list" where
  "zscores_of d =
     concat (map (\<lambda>(i, r). map r (filter_regex ''zscore'' (df_columns d))) (df_rows d))"

text \<open>Lines 77 to 100: the chi-squared variance test on the z-scores.\<close>

definition continuous_stage ::
  "'g scipy \<Rightarrow> dataframe \<Rightarrow> (string \<times> int) list \<Rightarrow> error + (float64 list \<times> result_bundle)" where
  "continuous_stage env df sample_size =
     ebind (process_continuous_variables_mean (Some df) sample_size) (\<lambda>cont.
       case cont of
         None \<Rightarrow> Inl (AttributeError ''NoneType object has no attribute filter'')
       | Some cont_df \<Rightarrow>
           let zscores = zscores_of cont_df
           in if df_len cont_df > 0 \<and> length zscores > 0
              then ebind (chi_square_variance_test (chi2_cdf env) zscores 1) (\<lambda>(p_value, test_stat).
                     Inr ([p_value],
                          [''cont_chi_squared_variance'' \<mapsto>
                             ChiSquaredVariance p_value test_stat zscores]))
              else Inr ([], Map.empty))"

text \<open>
  Lines 117 to 125: the Monte Carlo method is built when there are more than two groups.
\<close>

definition method_exact_fisher :: "'g scipy \<Rightarrow> string list \<Rightarrow> int option \<Rightarrow> 'g option" where
  "method_exact_fisher env group_ids random_seed =
     (if length group_ids > 2 then Some (default_rng env random_seed) else None)"

text \<open>
  \<open>row[c]\<close> of a row of the frame, and the count read from it.  \<open>to_csv_wide\<close> writes a count
  as \<open>int(value)\<close> or leaves it missing, and the rows that reach the loop have every count
  present: the cell holds an integer.
\<close>

definition row_get :: "string list \<Rightarrow> (string \<Rightarrow> cell) \<Rightarrow> string \<Rightarrow> error + cell" where
  "row_get cols r c = (if c \<in> set cols then Inr (r c) else Inl (KeyError c))"

definition count_of_cell :: "cell \<Rightarrow> error + int" where
  "count_of_cell c =
     (case c of
        Num (Fin x) \<Rightarrow> if x \<in> \<int> then Inr \<lfloor>x\<rfloor> else Inl (TypeError ''count is not an integer'')
      | _ \<Rightarrow> Inl (TypeError ''count is not an integer''))"

definition fisher_key :: "nat \<Rightarrow> string" where
  "fisher_key idx = ''fisher_test-'' @ show_nat idx"

text \<open>Lines 127 to 147: the loop over the rows of \<open>cat_df\<close>.\<close>

fun fisher_loop ::
  "'g scipy \<Rightarrow> string list \<Rightarrow> (string \<times> int) list \<Rightarrow> string list \<Rightarrow>
   (nat \<times> (string \<Rightarrow> cell)) list \<Rightarrow> 'g option \<times> float64 list \<times> result_bundle \<Rightarrow>
   error + ('g option \<times> float64 list \<times> result_bundle)" where
  "fisher_loop env group_ids sample_size cols [] st = Inr st"
| "fisher_loop env group_ids sample_size cols ((idx, r) # rest) (method, pvals, out) =
     ebind (row_get cols r ''Variable'') (\<lambda>variable_name.
     ebind (sequence_err (map (\<lambda>g_id.
              ebind (row_get cols r (g_id @ '' (count)'')) (\<lambda>c.
              ebind (count_of_cell c) (\<lambda>k. Inr (g_id, k)))) group_ids)) (\<lambda>group_counts.
     ebind (contingency_table_binary group_counts (map_of sample_size)) (\<lambda>table.
     ebind (fisher_exact env table method) (\<lambda>((test_stat, p_value), method').
       fisher_loop env group_ids sample_size cols rest
         (method', pvals @ [p_value],
          out(fisher_key idx \<mapsto>
                FisherTest p_value test_stat table variable_name (length group_ids = 2)))))))"

text \<open>Lines 106 to 147: the tests on the categorical rows.\<close>

definition categorical_stage ::
  "'g scipy \<Rightarrow> dataframe \<Rightarrow> (string \<times> int) list \<Rightarrow> int option \<Rightarrow>
   float64 list \<times> result_bundle \<Rightarrow> error + (float64 list \<times> result_bundle)" where
  "categorical_stage env df sample_size random_seed st =
     ebind (process_categorical_variables (Some df) (total_sample_size_of sample_size)) (\<lambda>cat.
       case cat of
         None \<Rightarrow> Inl (TypeError ''object of type NoneType has no len()'')
       | Some cat_df \<Rightarrow>
           if df_len cat_df = 0 then Inr st
           else
             ebind (fisher_loop env (map fst sample_size) sample_size (df_columns cat_df)
                      (df_rows cat_df)
                      (method_exact_fisher env (map fst sample_size) random_seed, st))
               (\<lambda>(method, st'). Inr st'))"

text \<open>Lines 70 to 147: the p-values and the records collected before the combination.\<close>

definition collect_tests ::
  "'g scipy \<Rightarrow> dataframe \<Rightarrow> (string \<times> int) list \<Rightarrow> bool \<Rightarrow> bool \<Rightarrow> int option \<Rightarrow>
   error + (float64 list \<times> result_bundle)" where
  "collect_tests env df sample_size skip_continuous_var skip_categorical_var random_seed =
     ebind (if skip_continuous_var then Inr ([], Map.empty)
            else continuous_stage env df sample_size) (\<lambda>st.
       if skip_categorical_var then Inr st
       else categorical_stage env df sample_size random_seed st)"

text \<open>Lines 149 to 169: validation of the p-values and Fisher's method.\<close>

definition valid_pvalue :: "float64 \<Rightarrow> bool" where
  "valid_pvalue p = (fle (Fin 0) p \<and> fle p (Fin 1))"

definition combine_stage :: "'g scipy \<Rightarrow> float64 list \<times> result_bundle \<Rightarrow> error + result_bundle" where
  "combine_stage env st =
     (case st of (pvals, out) \<Rightarrow>
        if length pvals = 0
          then Inl (ValueError ''No p-values collected. Cannot perform combined test.'')
        else if \<not> list_all valid_pvalue pvals
          then Inl (ValueError ''P-values must be between 0 and 1'')
        else ebind (combine_pvalues_fisher env pvals) (\<lambda>(test_stat, combined_p).
               Inr (out(''fisher_method-combined'' \<mapsto> FisherCombined combined_p test_stat))))"

definition run_test_pipeline ::
  "'g scipy \<Rightarrow> json_data \<Rightarrow> bool \<Rightarrow> bool \<Rightarrow> int option \<Rightarrow> error + result_bundle" where
  "run_test_pipeline env json skip_continuous_var skip_categorical_var random_seed =
     (let df = to_csv_wide json;
          sample_size = sample_size_of json;
          total_sample_size = total_sample_size_of sample_size
      in if total_sample_size = 0
         then Inl (ValueError ''Total sample size is zero. Cannot proceed with analysis.'')
         else ebind (collect_tests env df sample_size skip_continuous_var skip_categorical_var
                       random_seed)
                (combine_stage env))"

section \<open>Notions used in the statements and proofs\<close>

text \<open>
  The rows that \<open>process_continuous_variables_mean\<close> keeps: the continuous rows with a
  mean present under at least one of the columns whose label matches \<open>mean\<close>.
\<close>

definition retained_rows :: "dataframe \<Rightarrow> (nat \<times> (string \<Rightarrow> cell)) list" where
  "retained_rows d =
     filter (\<lambda>(i, r). r ''Variable type'' = Str ''Continuous'' \<and> any_mean (mean_cols_of d) r)
       (df_rows d)"

text \<open>What one pass of the loop body does to a row, once its checks have passed.\<close>

definition step_row :: "string \<Rightarrow> int \<Rightarrow> (string \<Rightarrow> cell) \<Rightarrow> (string \<Rightarrow> cell)" where
  "step_row g n r =
     (let r1 = impute_row g n r
      in r1(g @ '' (zscore)'' := Num (zscore_of g n r1), g @ '' (sem)'' := Num (sem_of g n r1)))"

text \<open>The columns that the pass for group \<open>g\<close> writes, and those it reads.\<close>

definition written :: "string \<Rightarrow> string set" where
  "written g = {g @ '' (sd)'', g @ '' (zscore)'', g @ '' (sem)''}"

definition inputs :: "string \<Rightarrow> string set" where
  "inputs g = {g @ '' (mean)'', g @ '' (sd)'', g @ '' (95CI_lower)'', g @ '' (95CI_upper)'',
               ''population_mean''}"

text \<open>The frame on which the loop over the groups starts.\<close>

definition start_frame :: "dataframe \<Rightarrow> dataframe" where
  "start_frame d =
     assign_column ''population_mean'' (\<lambda>r. Num (row_mean (mean_cols_of d) r))
       (d\<lparr>df_rows := retained_rows d\<rparr>)"



section \<open>Concrete inputs\<close>

text \<open>
  The chi-squared distribution function with two degrees of freedom has the closed form
  \<open>1 - exp (- x / 2)\<close>; it serves where a theorem is applied to an array of three
  z-scores.
\<close>

definition chi2_cdf_two_dof :: "real \<Rightarrow> nat \<Rightarrow> real" where
  "chi2_cdf_two_dof x k = (if x \<le> 0 then 0 else 1 - exp (- x / 2))"

text \<open>
  A stand-in for the functions of scipy, used where a theorem is applied to a concrete
  run: the tests return fixed pairs, and the Monte Carlo test counts its draws.
\<close>

definition count_entry :: "string \<Rightarrow> int \<Rightarrow> value_entry" where
  "count_entry gid k =
     \<lparr>v_group_id = gid, v_original = ''n (%)'', v_mean = None, v_median = None,
      v_count = Some k, v_IQR_lower = None, v_IQR_upper = None, v_95CI_lower = None,
      v_95CI_upper = None, v_sd = None, v_pvalue = None\<rparr>"

definition json_smoker :: json_data where
  "json_smoker =
     \<lparr>j_groups = [\<lparr>g_group_id = ''treatment'', g_label = ''Treatment'', g_sample_size = 50\<rparr>,
                 \<lparr>g_group_id = ''control'', g_label = ''Control'', g_sample_size = 50\<rparr>],
      j_rows = [\<lparr>r_variable = ''smoker'', r_variable_type = ''Categorical'',
                 r_level = Some ''Yes'',
                 r_values = [count_entry ''treatment'' 12, count_entry ''control'' 15]\<rparr>]\<rparr>"

definition smoker_record :: "(string \<times> cell) list" where
  "smoker_record =
     [(''Variable'', Str ''smoker (Yes)''),
      (''Variable type'', Str ''Categorical''),
      (''treatment (original)'', Str ''n (%)''),
      (''treatment (mean)'', Num NaN),
      (''treatment (median)'', Num NaN),
      (''treatment (count)'', Num (Fin 12)),
      (''treatment (IQR_lower)'', Num NaN),
      (''treatment (IQR_upper)'', Num NaN),
      (''treatment (95CI_lower)'', Num NaN),
      (''treatment (95CI_upper)'', Num NaN),
      (''treatment (sd)'', Num NaN), (''treatment (pvalue)'', Num NaN),
      (''control (original)'', Str ''n (%)''),
      (''control (mean)'', Num NaN), (''control (median)'', Num NaN),
      (''control (count)'', Num (Fin 15)),
      (''control (IQR_lower)'', Num NaN),
      (''control (IQR_upper)'', Num NaN),
      (''control (95CI_lower)'', Num NaN),
      (''control (95CI_upper)'', Num NaN), (''control (sd)'', Num NaN),
      (''control (pvalue)'', Num NaN)]"

text \<open>
  The extraction of the smokers again, with the first group named \<open>discount\<close>.
\<close>

definition json_discount :: json_data where
  "json_discount =
     \<lparr>j_groups = [\<lparr>g_group_id = ''discount'', g_label = ''Discount'', g_sample_size = 50\<rparr>,
                 \<lparr>g_group_id = ''control'', g_label = ''Control'', g_sample_size = 50\<rparr>],
      j_rows = [\<lparr>r_variable = ''smoker'', r_variable_type = ''Categorical'',
                 r_level = Some ''Yes'',
                 r_values = [count_entry ''discount'' 12, count_entry ''control'' 15]\<rparr>]\<rparr>"

definition discount_record :: "(string \<times> cell) list" where
  "discount_record =
     [(''Variable'', Str ''smoker (Yes)''),
      (''Variable type'', Str ''Categorical''),
      (''discount (original)'', Str ''n (%)''),
      (''discount (mean)'', Num NaN),
      (''discount (median)'', Num NaN),
      (''discount (count)'', Num (Fin 12)),
      (''discount (IQR_lower)'', Num NaN),
      (''discount (IQR_upper)'', Num NaN),
      (''discount (95CI_lower)'', Num NaN),
      (''discount (95CI_upper)'', Num NaN),
      (''discount (sd)'', Num NaN), (''discount (pvalue)'', Num NaN),
      (''control (original)'', Str ''n (%)''),
      (''control (mean)'', Num NaN), (''control (median)'', Num NaN),
      (''control (count)'', Num (Fin 15)),
      (''control (IQR_lower)'', Num NaN),
      (''control (IQR_upper)'', Num NaN),
      (''control (95CI_lower)'', Num NaN),
      (''control (95CI_upper)'', Num NaN), (''control (sd)'', Num NaN),
      (''control (pvalue)'', Num NaN)]"

definition scipy_stand_in :: "nat scipy" where
  "scipy_stand_in =
     \<lparr>chi2_cdf = chi2_cdf_two_dof,
      default_rng = (\<lambda>seed. case seed of None \<Rightarrow> 0 | Some s \<Rightarrow> nat s),
      fisher_exact_default = (\<lambda>table. Inr (Fin 1, Fin 1)),
      fisher_exact_monte_carlo = (\<lambda>table rng. Inr ((Fin (1 / 2), Fin 1), Suc rng)),
      combine_pvalues_fisher = (\<lambda>pvals. Inr (Fin 0, Fin 1))\<rparr>"

text \<open>
  Frames in the shape of the unit tests of the repository: one continuous row for two
  groups, the standard deviation and the confidence interval of the first group given
  as parameters; and an extraction whose second group reports no mean.
\<close>

definition age_record :: "cell \<Rightarrow> cell \<Rightarrow> cell \<Rightarrow> (string \<times> cell) list" where
  "age_record sd ci_lower ci_upper =
     [(''Variable'', Str ''Age''),
      (''Variable type'', Str ''Continuous''),
      (''group_1 (mean)'', Num (Fin 60)),
      (''group_1 (sd)'', sd),
      (''group_1 (95CI_lower)'', ci_lower),
      (''group_1 (95CI_upper)'', ci_upper),
      (''group_2 (mean)'', Num (Fin 58)),
      (''group_2 (sd)'', Num (Fin 9))]"

definition age_frame :: "cell \<Rightarrow> cell \<Rightarrow> cell \<Rightarrow> dataframe" where
  "age_frame sd ci_lower ci_upper =
     \<lparr>df_columns = map fst (age_record sd ci_lower ci_upper),
      df_rows = [(0, record_cells (age_record sd ci_lower ci_upper))]\<rparr>"

definition two_groups :: "(string \<times> int) list" where
  "two_groups = [(''group_1'', 50), (''group_2'', 55)]"

definition age_entry :: "string \<Rightarrow> real option \<Rightarrow> real \<Rightarrow> value_entry" where
  "age_entry gid m sd =
     \<lparr>v_group_id = gid, v_original = ''mean (sd)'', v_mean = m, v_median = None,
      v_count = None, v_IQR_lower = None, v_IQR_upper = None, v_95CI_lower = None,
      v_95CI_upper = None, v_sd = Some sd, v_pvalue = None\<rparr>"

definition json_age :: json_data where
  "json_age =
     \<lparr>j_groups = [\<lparr>g_group_id = ''treatment'', g_label = ''Treatment'', g_sample_size = 50\<rparr>,
                 \<lparr>g_group_id = ''control'', g_label = ''Control'', g_sample_size = 50\<rparr>],
      j_rows = [\<lparr>r_variable = ''age'', r_variable_type = ''Continuous'', r_level = None,
                 r_values = [age_entry ''treatment'' (Some 45.2) 10.1,
                             age_entry ''control'' None 9.8]\<rparr>]\<rparr>"

definition age_wide_record :: "(string \<times> cell) list" where
  "age_wide_record =
     [(''Variable'', Str ''age''),
      (''Variable type'', Str ''Continuous''),
      (''treatment (original)'', Str ''mean (sd)''),
      (''treatment (mean)'', Num (Fin 45.2)),
      (''treatment (median)'', Num NaN),
      (''treatment (count)'', Num NaN),
      (''treatment (IQR_lower)'', Num NaN),
      (''treatment (IQR_upper)'', Num NaN),
      (''treatment (95CI_lower)'', Num NaN),
      (''treatment (95CI_upper)'', Num NaN),
      (''treatment (sd)'', Num (Fin 10.1)),
      (''treatment (pvalue)'', Num NaN),
      (''control (original)'', Str ''mean (sd)''),
      (''control (mean)'', Num NaN),
      (''control (median)'', Num NaN),
      (''control (count)'', Num NaN),
      (''control (IQR_lower)'', Num NaN),
      (''control (IQR_upper)'', Num NaN),
      (''control (95CI_lower)'', Num NaN),
      (''control (95CI_upper)'', Num NaN),
      (''control (sd)'', Num (Fin 9.8)),
      (''control (pvalue)'', Num NaN)]"

section \<open>Results and errors\<close>

lemma ebind_simps [simp]: "ebind (Inl e) f = Inl e" "ebind (Inr x) f = f x"
  by (simp_all add: ebind_def)

lemma ebind_Inr_iff: "ebind m f = Inr y \<longleftrightarrow> (\<exists>x. m = Inr x \<and> f x = Inr y)"
  by (cases m) simp_all

section \<open>The contingency table\<close>

lemma store_int64_fits: "int64_fits v \<Longrightarrow> store_int64 v = Inr v"
  by (simp add: store_int64_def)

text \<open>
  Claim C5, as the code has it.  When every group has a total and the two numbers
  stored for a group fit a signed 64 bit integer, \<open>contingency_table_binary\<close> raises an
  error if and only if the success count of some group exceeds its total, and otherwise
  returns the table whose row for each group, in key order, is
  \<open>[count, total - count]\<close>.
\<close>

theorem contingency_table_binary_rows:
  assumes "\<forall>(g, c) \<in> set group_count. \<exists>t. group_total g = Some t \<and>
             (c \<le> t \<longrightarrow> int64_fits c \<and> int64_fits (t - c))"
  shows "((\<exists>e. contingency_table_binary group_count group_total = Inl e) \<longleftrightarrow>
            (\<exists>(g, c) \<in> set group_count. the (group_total g) < c)) \<and>
         ((\<forall>(g, c) \<in> set group_count. c \<le> the (group_total g)) \<longrightarrow>
            contingency_table_binary group_count group_total =
              Inr (map (\<lambda>(g, c). [c, the (group_total g) - c]) group_count))"
  using assms
proof (induction group_count)
  case Nil
  then show ?case by simp
next
  case (Cons gc rest)
  obtain g c where gc: "gc = (g, c)" by (cases gc)
  from Cons.prems gc obtain t where t: "group_total g = Some t"
    and fits: "c \<le> t \<longrightarrow> int64_fits c \<and> int64_fits (t - c)" by auto
  from Cons.prems have "\<forall>(g, c) \<in> set rest. \<exists>t. group_total g = Some t \<and>
             (c \<le> t \<longrightarrow> int64_fits c \<and> int64_fits (t - c))" by simp
  note IH = Cons.IH [OF this]
  show ?case
  proof (cases "t < c")
    case True
    then show ?thesis using gc t by auto
  next
    case False
    then have "store_int64 c = Inr c" "store_int64 (t - c) = Inr (t - c)"
      using fits by (simp_all add: store_int64_fits)
    then show ?thesis using gc t False IH
      by (auto split: sum.splits)
  qed
qed

text \<open>The example of the specification: 30 successes out of 50 give the row \<open>[30, 20]\<close>.\<close>

theorem contingency_table_binary_witness:
  "contingency_table_binary [(''A'', 30)] [''A'' \<mapsto> 50] = Inr [[30, 20]]"
  using contingency_table_binary_rows [of "[(''A'', 30)]" "[''A'' \<mapsto> 50]"]
  by (simp add: int64_fits_def)

text \<open>
  Claim C5 as stated fails: a count equal to its total does not exceed it, and yet the
  store into the integer table raises when the count does not fit 64 bits.
\<close>

theorem contingency_table_binary_overflow:
  "contingency_table_binary [(''A'', 2 ^ 63)] [''A'' \<mapsto> 2 ^ 63] =
     Inl (OverflowError ''Python int too large to convert to C long'') \<and>
   \<not> (the ([''A'' \<mapsto> (2::int) ^ 63] ''A'') < 2 ^ 63)"
  by (simp add: store_int64_def int64_fits_def)

section \<open>The chi-squared variance test\<close>

lemma finite_cells_pass:
  assumes "list_all is_finite_cell zs"
  shows "\<not> list_ex is_str zs" "\<not> list_ex cell_nan_or_inf zs"
proof -
  have a: "is_finite_cell c \<Longrightarrow> \<not> is_str c \<and> \<not> cell_nan_or_inf c" for c
    by (cases c rule: is_finite_cell.cases) simp_all
  show "\<not> list_ex is_str zs" "\<not> list_ex cell_nan_or_inf zs"
    using assms a by (auto simp: list_all_iff list_ex_iff)
qed

lemma overflow_threshold_ge: "2 ^ 1023 \<le> overflow_threshold"
proof -
  have "(2::real) ^ 1023 = 2 ^ 53 * 2 ^ 970" by (simp add: power_add [symmetric])
  also have "\<dots> \<le> (2 ^ 54 - 1) * 2 ^ 970" by (intro mult_right_mono) simp_all
  finally show ?thesis by (simp add: overflow_threshold_def)
qed

lemma to_double_Fin: "\<bar>x\<bar> < 2 ^ 1023 \<Longrightarrow> to_double x = Fin x"
  using overflow_threshold_ge by (simp add: to_double_def)

lemma np_ops_Fin:
  "\<bar>x + y\<bar> < 2 ^ 1023 \<Longrightarrow> np_add (Fin x) (Fin y) = Fin (x + y)"
  "\<bar>x - y\<bar> < 2 ^ 1023 \<Longrightarrow> np_subtract (Fin x) (Fin y) = Fin (x - y)"
  "\<bar>x * y\<bar> < 2 ^ 1023 \<Longrightarrow> np_multiply (Fin x) (Fin y) = Fin (x * y)"
  "y \<noteq> 0 \<Longrightarrow> \<bar>x / y\<bar> < 2 ^ 1023 \<Longrightarrow> np_divide (Fin x) (Fin y) = Fin (x / y)"
  by (simp_all add: np_add_def np_subtract_def np_multiply_def np_divide_def fsub_def
      to_double_Fin)

lemma sum_list_abs_bound:
  assumes "\<forall>x \<in> set xs. \<bar>x\<bar> \<le> B"
  shows "\<bar>sum_list xs\<bar> \<le> real (length xs) * (B::real)"
  using assms
proof (induction xs)
  case Nil
  then show ?case by simp
next
  case (Cons x xs)
  then have "\<bar>x\<bar> \<le> B" "\<bar>sum_list xs\<bar> \<le> real (length xs) * B" by simp_all
  then show ?case by (simp add: algebra_simps)
qed

lemma np_sum_from:
  assumes "\<forall>x \<in> set xs. \<bar>x\<bar> \<le> B" "\<bar>a\<bar> + real (length xs) * B < 2 ^ 1023"
  shows "foldl np_add (Fin a) (map Fin xs) = Fin (a + sum_list xs)"
  using assms
proof (induction xs arbitrary: a)
  case Nil
  then show ?case by simp
next
  case (Cons x xs)
  from Cons.prems have x: "\<bar>x\<bar> \<le> B" and rest: "\<forall>x \<in> set xs. \<bar>x\<bar> \<le> B" by simp_all
  from x have B: "0 \<le> B" by linarith
  from Cons.prems(2) have tot: "\<bar>a\<bar> + B + real (length xs) * B < 2 ^ 1023"
    by (simp add: algebra_simps)
  have "0 \<le> real (length xs) * B" using B by simp
  with tot x have "\<bar>a + x\<bar> < 2 ^ 1023" by linarith
  then have step: "np_add (Fin a) (Fin x) = Fin (a + x)" by (rule np_ops_Fin)
  from tot x have "\<bar>a + x\<bar> + real (length xs) * B < 2 ^ 1023" by linarith
  from Cons.IH [OF rest this] step show ?case by (simp add: add.assoc)
qed

lemma np_sum_Fin:
  assumes "\<forall>x \<in> set xs. \<bar>x\<bar> \<le> B" "real (length xs) * B < 2 ^ 1023"
  shows "np_sum (map Fin xs) = Fin (sum_list xs)"
  using np_sum_from [of xs B 0] assms by (simp add: np_sum_def)


lemma sum_list_nonneg_bound:
  assumes "\<forall>y \<in> set ys. 0 \<le> y \<and> y \<le> C"
  shows "0 \<le> sum_list ys \<and> sum_list ys \<le> real (length ys) * (C::real)"
  using assms by (induction ys) (auto simp: algebra_simps)

lemma np_var_Fin:
  assumes n: "2 \<le> length xs" and bnd: "\<forall>x \<in> set xs. \<bar>x\<bar> \<le> B" and B: "1 \<le> B"
    and rng: "real (length xs) * (4 * B\<^sup>2) < 2 ^ 1023"
  shows "np_var (map Fin xs) (Suc 0) = Fin (sample_variance xs)"
    and "0 \<le> (\<Sum>x\<leftarrow>xs. (x - sum_list xs / real (length xs))\<^sup>2)"
    and "(\<Sum>x\<leftarrow>xs. (x - sum_list xs / real (length xs))\<^sup>2) \<le> real (length xs) * (4 * B\<^sup>2)"
proof -
  let ?n = "real (length xs)"
  let ?m = "sum_list xs / ?n"
  let ?ds = "map (\<lambda>x. x - ?m) xs"
  let ?qs = "map (\<lambda>d. d * d) ?ds"
  from n have n1: "1 \<le> ?n" "?n \<noteq> 0" "0 < ?n" by auto
  from B have B2: "B \<le> B\<^sup>2" "0 \<le> B" by (simp_all add: power2_eq_square)
  then have B4: "B \<le> 4 * B\<^sup>2" "2 * B \<le> 4 * B\<^sup>2" by linarith+
  have nB: "?n * B \<le> ?n * (4 * B\<^sup>2)" using B4(1) n1 by (intro mult_left_mono) simp_all
  have one: "4 * B\<^sup>2 \<le> ?n * (4 * B\<^sup>2)" using n1(1) B2(2)
    by (metis mult_le_cancel_right1 mult_nonneg_nonneg not_less power2_eq_square
        zero_le_numeral zero_le_power2 mult.commute)
  have S: "\<bar>sum_list xs\<bar> \<le> ?n * B" using bnd by (rule sum_list_abs_bound)
  have m: "\<bar>?m\<bar> \<le> B"
  proof -
    have "\<bar>?m\<bar> = \<bar>sum_list xs\<bar> / ?n" by simp
    also have "\<dots> \<le> (?n * B) / ?n" using S n1 by (intro divide_right_mono) simp_all
    also have "\<dots> = B" using n1 by simp
    finally show ?thesis .
  qed
  have s1: "np_sum (map Fin xs) = Fin (sum_list xs)"
    using bnd nB rng by (intro np_sum_Fin [of xs B]) auto
  have s2: "np_divide (Fin (sum_list xs)) (Fin ?n) = Fin ?m"
    using m B4(1) one rng n1 by (intro np_ops_Fin) auto
  have d: "\<bar>x - ?m\<bar> \<le> 2 * B" if "x \<in> set xs" for x
  proof -
    from bnd that have "\<bar>x\<bar> \<le> B" by blast
    with m show ?thesis by linarith
  qed
  have s3: "map (\<lambda>a. np_subtract a (Fin ?m)) (map Fin xs) = map Fin ?ds"
  proof -
    have "np_subtract (Fin x) (Fin ?m) = Fin (x - ?m)" if "x \<in> set xs" for x
      using d [OF that] B4(2) one rng by (intro np_ops_Fin) linarith
    then show ?thesis by simp
  qed
  have q: "0 \<le> y \<and> y \<le> 4 * B\<^sup>2" if "y \<in> set ?qs" for y
  proof -
    from that obtain x where x: "x \<in> set xs" and y: "y = (x - ?m) * (x - ?m)" by auto
    have "(x - ?m) * (x - ?m) = \<bar>x - ?m\<bar> * \<bar>x - ?m\<bar>" by simp
    also have "\<dots> \<le> (2 * B) * (2 * B)"
      using d [OF x] by (intro mult_mono) simp_all
    finally show ?thesis unfolding y by (simp add: power2_eq_square)
  qed
  have s4: "map (\<lambda>a. np_multiply a a) (map Fin ?ds) = map Fin ?qs"
  proof -
    have "np_multiply (Fin (x - ?m)) (Fin (x - ?m)) = Fin ((x - ?m) * (x - ?m))"
      if "x \<in> set xs" for x
    proof -
      from that have "(x - ?m) * (x - ?m) \<in> set ?qs" by auto
      from q [OF this] one rng have "\<bar>(x - ?m) * (x - ?m)\<bar> < 2 ^ 1023" by simp
      then show ?thesis by (rule np_ops_Fin)
    qed
    then show ?thesis by simp
  qed
  have Q: "0 \<le> sum_list ?qs \<and> sum_list ?qs \<le> real (length ?qs) * (4 * B\<^sup>2)"
    using q by (intro sum_list_nonneg_bound) blast
  have s5: "np_sum (map Fin ?qs) = Fin (sum_list ?qs)"
  proof (rule np_sum_Fin [of ?qs "4 * B\<^sup>2"])
    show "\<forall>x \<in> set ?qs. \<bar>x\<bar> \<le> 4 * B\<^sup>2" using q by fastforce
    show "real (length ?qs) * (4 * B\<^sup>2) < 2 ^ 1023" using rng by simp
  qed
  have n2: "real (length xs - Suc 0) = ?n - 1" "1 \<le> ?n - 1"
    using n by (simp_all add: of_nat_diff)
  have s6: "np_divide (Fin (sum_list ?qs)) (Fin (?n - 1)) = Fin (sum_list ?qs / (?n - 1))"
  proof (rule np_ops_Fin)
    show "?n - 1 \<noteq> 0" using n2 by simp
    have "\<bar>sum_list ?qs / (?n - 1)\<bar> = sum_list ?qs / (?n - 1)" using Q n2 by simp
    also have "\<dots> \<le> sum_list ?qs / 1" using Q n2 by (intro divide_left_mono) simp_all
    finally show "\<bar>sum_list ?qs / (?n - 1)\<bar> < 2 ^ 1023" using Q rng by simp
  qed
  have eq: "sum_list ?qs = (\<Sum>x\<leftarrow>xs. (x - ?m)\<^sup>2)"
    by (simp add: power2_eq_square o_def)
  show "np_var (map Fin xs) (Suc 0) = Fin (sample_variance xs)"
    by (simp only: np_var_def Let_def length_map s1 s2 s3 s4 s5 n2(1) s6 [unfolded eq]
        sample_variance_def eq)
  show "0 \<le> (\<Sum>x\<leftarrow>xs. (x - ?m)\<^sup>2)" using Q eq by simp
  show "(\<Sum>x\<leftarrow>xs. (x - ?m)\<^sup>2) \<le> ?n * (4 * B\<^sup>2)" using Q eq by simp
qed


lemma finite_cells_float:
  assumes "list_all is_finite_cell zs"
  shows "map cell_float zs = map Fin (map cell_real zs)"
proof -
  have "cell_float c = Fin (cell_real c)" if "is_finite_cell c" for c
    using that by (cases c rule: is_finite_cell.cases) (simp_all add: cell_float_def)
  with assms show ?thesis by (simp add: list_all_iff)
qed

lemma float_pow2_Fin:
  assumes "1 / 2 ^ 200 \<le> sigma0" "sigma0 \<le> 2 ^ 200"
  shows "float_pow2 sigma0 = Inr (Fin (sigma0\<^sup>2))"
    and "1 / 2 ^ 400 \<le> sigma0\<^sup>2" and "sigma0\<^sup>2 \<le> 2 ^ 400"
proof -
  have "(0::real) \<le> 1 / 2 ^ 200" by simp
  with assms(1) have pos: "0 \<le> sigma0" by linarith
  have "(1 / 2 ^ 200)\<^sup>2 \<le> sigma0\<^sup>2" using assms(1) by (intro power_mono) simp_all
  then show lo: "1 / 2 ^ 400 \<le> sigma0\<^sup>2" by (simp add: power_divide)
  have "sigma0\<^sup>2 \<le> (2 ^ 200)\<^sup>2" using assms(2) pos by (intro power_mono) simp_all
  then show hi: "sigma0\<^sup>2 \<le> 2 ^ 400" by simp
  have "(2::real) ^ 400 < 2 ^ 1023" by simp
  with hi overflow_threshold_ge have a: "\<not> overflow_threshold \<le> sigma0\<^sup>2" by simp
  have "(1::real) / 2 ^ 1075 < 1 / 2 ^ 400" by simp
  with lo have b: "\<not> sigma0\<^sup>2 \<le> underflow_threshold" by (simp add: underflow_threshold_def)
  from a b show "float_pow2 sigma0 = Inr (Fin (sigma0\<^sup>2))" by (simp add: float_pow2_def)
qed

lemma two_tailed_Fin:
  assumes "0 \<le> F" "F \<le> 1"
  shows "np_multiply (Fin 2) (py_min (Fin F) (np_subtract (Fin 1) (Fin F))) =
           Fin (2 * min F (1 - F))"
proof -
  have "(1::real) < 2 ^ 1023" "(2::real) < 2 ^ 1023" by simp_all
  with assms have s: "np_subtract (Fin 1) (Fin F) = Fin (1 - F)"
    by (intro np_ops_Fin) simp
  have m: "py_min (Fin F) (Fin (1 - F)) = Fin (min F (1 - F))"
    by (simp add: py_min_def min_def)
  have "\<bar>2 * min F (1 - F)\<bar> \<le> 2" using assms by (simp add: min_def)
  also have "(2::real) < 2 ^ 1023" by simp
  finally have "np_multiply (Fin 2) (Fin (min F (1 - F))) = Fin (2 * min F (1 - F))"
    by (rule np_ops_Fin)
  with s m show ?thesis by simp
qed

lemma chi_square_variance_test_unfold:
  assumes "2 \<le> length zscores" "\<not> list_ex is_str zscores" "\<not> list_ex cell_nan_or_inf zscores"
    "0 < sigma0"
  shows "chi_square_variance_test cdf zscores sigma0 =
     ebind (float_pow2 sigma0) (\<lambda>sigma0_squared.
       let chi2_stat = np_divide
             (np_multiply (Fin (real (length zscores - 1))) (np_var (map cell_float zscores) 1))
             sigma0_squared;
           cdf_value = chi2_cdf_at cdf chi2_stat (length zscores - 1);
           p_value = np_multiply (Fin 2) (py_min cdf_value (np_subtract (Fin 1) cdf_value))
       in Inr (p_value, chi2_stat))"
proof -
  from assms(1) have "length zscores \<noteq> 0" "\<not> length zscores < 2" by auto
  with assms(2-4) show ?thesis
    by (simp only: chi_square_variance_test_def Let_def if_False not_le [symmetric] simp_thms)
qed

lemma chi_square_variance_test_in_range:
  assumes cdf: "\<forall>x k. 0 \<le> cdf x k \<and> cdf x k \<le> 1"
    and n: "2 \<le> length zscores" "length zscores < 2 ^ 63"
    and fin: "list_all is_finite_cell zscores"
    and z: "\<forall>z \<in> set zscores. \<bar>cell_real z\<bar> \<le> 2 ^ 200"
    and s: "1 / 2 ^ 200 \<le> sigma0" "sigma0 \<le> 2 ^ 200"
  shows "chi_square_variance_test cdf zscores sigma0 =
           Inr (Fin (spec_two_tailed (\<lambda>x. cdf x (length zscores - 1))
                       (spec_chi2_stat (map cell_real zscores) sigma0)),
                Fin (spec_chi2_stat (map cell_real zscores) sigma0))"
    and "0 \<le> spec_chi2_stat (map cell_real zscores) sigma0"
proof -
  let ?xs = "map cell_real zscores"
  let ?n = "real (length zscores)"
  let ?B = "(2::real) ^ 200"
  let ?Q = "\<Sum>x\<leftarrow>?xs. (x - sum_list ?xs / real (length ?xs))\<^sup>2"
  have len: "length ?xs = length zscores" by simp
  have nn: "?n \<le> 2 ^ 63" using n(2) by (metis less_imp_le of_nat_le_iff of_nat_numeral of_nat_power)
  have "?n * (4 * ?B\<^sup>2) \<le> 2 ^ 63 * (4 * ?B\<^sup>2)" using nn by (intro mult_right_mono) simp_all
  also have "\<dots> = (2::real) ^ 465" by simp
  finally have Qb: "?n * (4 * ?B\<^sup>2) \<le> 2 ^ 465" .
  have small: "(2::real) ^ 465 < 2 ^ 1023" by simp
  have bnd: "\<forall>x \<in> set ?xs. \<bar>x\<bar> \<le> ?B" using z by simp
  have rng: "real (length ?xs) * (4 * ?B\<^sup>2) < 2 ^ 1023" using Qb small by simp
  have B1: "1 \<le> ?B" by simp
  have n2: "2 \<le> length ?xs" using n(1) by simp
  note V = np_var_Fin [OF n2 bnd B1 rng]
  have Q0: "0 \<le> ?Q" using V(2) .
  have Q1: "?Q \<le> 2 ^ 465" using V(3) Qb by simp
  have n1: "real (length zscores - 1) = ?n - 1" "?n - 1 \<noteq> 0"
    using n(1) by (simp_all add: of_nat_diff)
  have num: "(?n - 1) * sample_variance ?xs = ?Q"
    using n1(2) by (simp add: sample_variance_def)
  have var: "np_var (map cell_float zscores) 1 = Fin (sample_variance ?xs)"
    using V(1) by (simp add: finite_cells_float [OF fin])
  have mul: "np_multiply (Fin (?n - 1)) (Fin (sample_variance ?xs)) = Fin ?Q"
  proof -
    have "\<bar>(?n - 1) * sample_variance ?xs\<bar> < 2 ^ 1023"
      unfolding num using Q0 Q1 small by simp
    then have "np_multiply (Fin (?n - 1)) (Fin (sample_variance ?xs)) =
                 Fin ((?n - 1) * sample_variance ?xs)" by (rule np_ops_Fin)
    then show ?thesis by (simp only: num)
  qed
  note P = float_pow2_Fin [OF s]
  have "(0::real) < 1 / 2 ^ 400" by simp
  with P(2) have sp: "0 < sigma0\<^sup>2" by linarith
  have quot: "?Q / sigma0\<^sup>2 \<le> 2 ^ 865"
  proof -
    have "?Q / sigma0\<^sup>2 \<le> ?Q / (1 / 2 ^ 400)"
      using P(2) Q0 sp by (intro divide_left_mono) simp_all
    also have "\<dots> = ?Q * 2 ^ 400" by simp
    also have "\<dots> \<le> 2 ^ 465 * 2 ^ 400" using Q1 by (intro mult_right_mono) simp_all
    also have "\<dots> = (2::real) ^ 865" by (simp add: power_add [symmetric])
    finally show ?thesis .
  qed
  have q0: "0 \<le> ?Q / sigma0\<^sup>2" using Q0 sp by simp
  have "(2::real) ^ 865 < 2 ^ 1023" by simp
  with quot q0 have "\<bar>?Q / sigma0\<^sup>2\<bar> < 2 ^ 1023" by simp
  with sp have dv: "np_divide (Fin ?Q) (Fin (sigma0\<^sup>2)) = Fin (?Q / sigma0\<^sup>2)"
    by (intro np_ops_Fin) simp_all
  have st: "spec_chi2_stat ?xs sigma0 = ?Q / sigma0\<^sup>2"
    using num by (simp add: spec_chi2_stat_def)
  let ?F = "cdf (?Q / sigma0\<^sup>2) (length zscores - 1)"
  have F: "0 \<le> ?F" "?F \<le> 1" using cdf by simp_all
  have "(0::real) < 1 / 2 ^ 200" by simp
  with s(1) have s0: "0 < sigma0" by linarith
  show "0 \<le> spec_chi2_stat ?xs sigma0" using q0 st by simp
  show "chi_square_variance_test cdf zscores sigma0 =
           Inr (Fin (spec_two_tailed (\<lambda>x. cdf x (length zscores - 1))
                       (spec_chi2_stat ?xs sigma0)),
                Fin (spec_chi2_stat ?xs sigma0))"
    unfolding chi_square_variance_test_unfold [OF n(1) finite_cells_pass [OF fin] s0]
    by (simp only: var n1(1) mul P(1) ebind_simps Let_def dv chi2_cdf_at_def float64.case
        two_tailed_Fin [OF F] st spec_two_tailed_def)
qed

lemma chi2_cdf_two_dof_range: "0 \<le> chi2_cdf_two_dof x k \<and> chi2_cdf_two_dof x k \<le> 1"
  by (simp add: chi2_cdf_two_dof_def)

text \<open>
  Claim C2, as the code computes it.  Let the array hold at least two and fewer than
  \<open>2\<^sup>6\<^sup>3\<close> finite z-scores, of magnitude at most \<open>2\<^sup>2\<^sup>0\<^sup>0\<close>, and let \<open>sigma0\<close> lie between
  \<open>2\<^sup>-\<^sup>2\<^sup>0\<^sup>0\<close> and \<open>2\<^sup>2\<^sup>0\<^sup>0\<close>: no intermediate result then leaves the range of a double.
  With a distribution function that takes its values in \<open>[0, 1]\<close>, the test returns the
  statistic \<open>(n - 1) * sample_variance / sigma0\<^sup>2\<close> and the two-tailed p-value
  \<open>2 * min (F stat) (1 - F stat)\<close>, where \<open>F\<close> is the distribution function with \<open>n - 1\<close>
  degrees of freedom.
\<close>

theorem chi_square_variance_test_formula:
  assumes "\<forall>x k. 0 \<le> cdf x k \<and> cdf x k \<le> 1"
    and "2 \<le> length zscores" "length zscores < 2 ^ 63"
    and "list_all is_finite_cell zscores"
    and "\<forall>z \<in> set zscores. \<bar>cell_real z\<bar> \<le> 2 ^ 200"
    and "1 / 2 ^ 200 \<le> sigma0" "sigma0 \<le> 2 ^ 200"
  shows "chi_square_variance_test cdf zscores sigma0 =
           Inr (Fin (spec_two_tailed (\<lambda>x. cdf x (length zscores - 1))
                       (spec_chi2_stat (map cell_real zscores) sigma0)),
                Fin (spec_chi2_stat (map cell_real zscores) sigma0))"
  using assms by (rule chi_square_variance_test_in_range)

theorem chi_square_variance_test_formula_witness:
  "chi_square_variance_test chi2_cdf_two_dof [Num (Fin 1), Num (Fin 2), Num (Fin 3)] 1 =
     Inr (Fin (2 * min (1 - exp (- 1)) (exp (- 1))), Fin 2)"
  using chi_square_variance_test_formula
    [of chi2_cdf_two_dof "[Num (Fin 1), Num (Fin 2), Num (Fin 3)]" 1]
  by (simp add: chi2_cdf_two_dof_range spec_two_tailed_def spec_chi2_stat_def
      sample_variance_def chi2_cdf_two_dof_def)

text \<open>
  Claim C2 as stated fails: \<open>sigma0 = 2\<^sup>6\<^sup>0\<^sup>0\<close> is a positive double whose square
  overflows, and the test raises \<open>OverflowError\<close> instead of returning.
\<close>

theorem chi_square_variance_test_overflow:
  "chi_square_variance_test chi2_cdf_two_dof [Num (Fin 1), Num (Fin 2), Num (Fin 3)] (2 ^ 600) =
     Inl (OverflowError (''(34, '' @ [CHR 0x27] @ ''Numerical result out of range''
                           @ [CHR 0x27] @ '')'')) \<and>
   (0::real) < 2 ^ 600"
  by (simp add: chi_square_variance_test_def float_pow2_def overflow_threshold_def)

text \<open>
  Claim C7, as the code computes it.  Under the same conditions (at least two and fewer
  than \<open>2\<^sup>6\<^sup>3\<close> finite z-scores of magnitude at most \<open>2\<^sup>2\<^sup>0\<^sup>0\<close>, \<open>sigma0\<close> between \<open>2\<^sup>-\<^sup>2\<^sup>0\<^sup>0\<close> and
  \<open>2\<^sup>2\<^sup>0\<^sup>0\<close>, a distribution function with values in \<open>[0, 1]\<close>) the test returns a finite
  statistic that is not negative and a p-value in \<open>[0, 1]\<close>.
\<close>

theorem chi_square_variance_test_range:
  assumes "\<forall>x k. 0 \<le> cdf x k \<and> cdf x k \<le> 1"
    and "2 \<le> length zscores" "length zscores < 2 ^ 63"
    and "list_all is_finite_cell zscores"
    and "\<forall>z \<in> set zscores. \<bar>cell_real z\<bar> \<le> 2 ^ 200"
    and "1 / 2 ^ 200 \<le> sigma0" "sigma0 \<le> 2 ^ 200"
  shows "\<exists>p_value chi2_stat.
           chi_square_variance_test cdf zscores sigma0 = Inr (Fin p_value, Fin chi2_stat) \<and>
           0 \<le> chi2_stat \<and> 0 \<le> p_value \<and> p_value \<le> 1"
proof -
  let ?s = "spec_chi2_stat (map cell_real zscores) sigma0"
  let ?F = "cdf ?s (length zscores - 1)"
  have F: "0 \<le> ?F" "?F \<le> 1" using assms(1) by auto
  then have p: "0 \<le> 2 * min ?F (1 - ?F)" "2 * min ?F (1 - ?F) \<le> 1"
    by (simp_all add: min_def)
  from chi_square_variance_test_in_range [OF assms] p show ?thesis
    by (simp add: spec_two_tailed_def)
qed

theorem chi_square_variance_test_range_witness:
  "\<exists>p_value chi2_stat.
     chi_square_variance_test chi2_cdf_two_dof [Num (Fin 1), Num (Fin 2), Num (Fin 3)] 1 =
       Inr (Fin p_value, Fin chi2_stat) \<and> 0 \<le> chi2_stat \<and> 0 \<le> p_value \<and> p_value \<le> 1"
  using chi_square_variance_test_range
    [of chi2_cdf_two_dof "[Num (Fin 1), Num (Fin 2), Num (Fin 3)]" 1]
  by (simp add: chi2_cdf_two_dof_range)

text \<open>
  Claim C7 as stated fails: \<open>sigma0 = 2\<^sup>-\<^sup>6\<^sup>0\<^sup>0\<close> is a positive double whose square underflows
  to zero; on two equal z-scores the variance is zero, the statistic is zero divided by
  zero, and the test returns NaN for the statistic and for the p-value.
\<close>

theorem chi_square_variance_test_underflow:
  "chi_square_variance_test chi2_cdf_two_dof [Num (Fin 1), Num (Fin 1)] (1 / 2 ^ 600) =
     Inr (NaN, NaN) \<and>
   (0::real) < 1 / 2 ^ 600"
  by (simp add: chi_square_variance_test_def float_pow2_def overflow_threshold_def
      underflow_threshold_def np_var_def np_sum_def np_add_def np_subtract_def np_multiply_def
      np_divide_def fsub_def to_double_def cell_float_def chi2_cdf_at_def py_min_def Let_def
      power_divide)

section \<open>The categorical rate engine\<close>



lemma foldl_fadd_Fin: "foldl fadd (Fin a) (map Fin xs) = Fin (a + sum_list xs)"
  by (induction xs arbitrary: a) (simp_all add: add.assoc)

lemma present_values_finite:
  assumes "\<forall>c \<in> set cols. is_finite_cell (r c)"
  shows "present_values cols r = map Fin (map (\<lambda>c. cell_real (r c)) cols)"
  using assms
proof (induction cols)
  case Nil
  then show ?case by (simp add: present_values_def)
next
  case (Cons c cols)
  then have "is_finite_cell (r c)" by simp
  then obtain x where "r c = Num (Fin x)" by (cases "r c" rule: is_finite_cell.cases) auto
  with Cons show ?case by (simp add: present_values_def cell_float_def)
qed

lemma population_rate_finite:
  assumes "\<forall>c \<in> set cols. is_finite_cell (r c)" "n \<noteq> 0"
  shows "population_rate cols n r = Num (Fin ((\<Sum>c\<leftarrow>cols. cell_real (r c)) / real_of_int n))"
proof -
  have "row_sum cols r = Fin (\<Sum>c\<leftarrow>cols. cell_real (r c))"
    using foldl_fadd_Fin [of 0 "map (\<lambda>c. cell_real (r c)) cols"] assms(1)
    by (simp add: row_sum_def present_values_finite)
  then show ?thesis using assms(2) by (simp add: population_rate_def)
qed

text \<open>
  What the rate engine returns, in terms of the columns that the pattern \<open>(count)\<close>
  selects.  On a frame that is not empty, with a positive total sample size and no string
  under a selected column, the result holds the rows whose \<open>Variable type\<close> is
  \<open>Categorical\<close> and whose cell is present under every selected column, in their order,
  each with the new cell \<open>population_rate\<close>.  For finite cells the rate is their sum
  divided by the total sample size.
\<close>

lemma process_categorical_variables_selected:
  assumes "\<not> df_empty d" "0 < total_sample_size" "''Variable type'' \<in> set (df_columns d)"
    and "\<forall>(i, r) \<in> set (df_rows d). \<forall>c \<in> set (count_cols_of d). \<not> is_str (r c)"
  shows "process_categorical_variables (Some d) total_sample_size =
           Inr (Some \<lparr>df_columns = add_column ''population_rate'' (df_columns d),
                      df_rows =
                        map (\<lambda>(i, r). (i, r(''population_rate'' :=
                               population_rate (count_cols_of d) total_sample_size r)))
                          (filter (\<lambda>(i, r). r ''Variable type'' = Str ''Categorical'' \<and>
                                     (\<forall>c \<in> set (count_cols_of d). notna (r c)))
                             (df_rows d))\<rparr>) \<and>
         (\<forall>r. (\<forall>c \<in> set (count_cols_of d). is_finite_cell (r c)) \<longrightarrow>
              population_rate (count_cols_of d) total_sample_size r =
                Num (Fin ((\<Sum>c\<leftarrow>count_cols_of d. cell_real (r c)) / real_of_int total_sample_size)))"
proof -
  have nostr: "\<not> has_str (count_cols_of d) (select_rows keep (select_rows keep' d))" for keep keep'
    using assms(4) by (auto simp: has_str_def select_rows_def list_ex_iff)
  have cc: "count_cols_of (select_rows keep d) = count_cols_of d" for keep
    by (simp add: count_cols_of_def select_rows_def)
  have "process_categorical_variables (Some d) total_sample_size =
           Inr (Some (assign_column ''population_rate''
                  (population_rate (count_cols_of d) total_sample_size)
                  (select_rows (counts_complete (count_cols_of d))
                     (select_rows (\<lambda>r. r ''Variable type'' = Str ''Categorical'') d))))"
    using assms(1-3) nostr
    by (simp add: process_categorical_variables_def select_eq_def Let_def cc)
  moreover have "assign_column ''population_rate''
                  (population_rate (count_cols_of d) total_sample_size)
                  (select_rows (counts_complete (count_cols_of d))
                     (select_rows (\<lambda>r. r ''Variable type'' = Str ''Categorical'') d)) =
        \<lparr>df_columns = add_column ''population_rate'' (df_columns d),
                      df_rows =
                        map (\<lambda>(i, r). (i, r(''population_rate'' :=
                               population_rate (count_cols_of d) total_sample_size r)))
                          (filter (\<lambda>(i, r). r ''Variable type'' = Str ''Categorical'' \<and>
                                     (\<forall>c \<in> set (count_cols_of d). notna (r c)))
                             (df_rows d))\<rparr>"
    by (simp add: assign_column_def select_rows_def counts_complete_def list_all_iff
        case_prod_unfold conj_commute)
  ultimately show ?thesis
    using assms(2) by (simp add: population_rate_finite)
qed

text \<open>
  Claim C9, as the code has it.  On a frame that is not empty, a total sample size that
  is not positive makes the rate engine fail with its data error.  A frame that is empty,
  and \<open>None\<close>, are returned as they are, whatever the total sample size is.
\<close>

theorem process_categorical_variables_positive:
  "(\<not> df_empty d \<and> total_sample_size \<le> 0 \<longrightarrow>
      process_categorical_variables (Some d) total_sample_size =
        Inl (ValueError ''total_sample_size must be positive'')) \<and>
   (df_empty d \<longrightarrow> process_categorical_variables (Some d) total_sample_size = Inr (Some d)) \<and>
   process_categorical_variables None total_sample_size = Inr None"
  by (simp add: process_categorical_variables_def)

text \<open>
  Claim C9 as stated fails: the test for an empty frame comes first, and the empty frame
  is returned whatever the total sample size is.
\<close>

theorem process_categorical_variables_empty_frame:
  "process_categorical_variables (Some \<lparr>df_columns = [], df_rows = []\<rparr>) 0 =
     Inr (Some \<lparr>df_columns = [], df_rows = []\<rparr>) \<and> (0::int) \<le> 0"
  by (simp add: process_categorical_variables_def df_empty_def)

section \<open>The result of the pipeline\<close>

text \<open>
  Claim C1.  A bundle that \<open>run_test_pipeline\<close> returns holds, under the key
  \<open>fisher_method-combined\<close>, a record with a p-value and a test statistic.  When the
  tests collect no p-value, and in particular when both are skipped, the pipeline
  raises \<open>ValueError\<close>.
\<close>

theorem run_test_pipeline_combined:
  "(run_test_pipeline env json skip_continuous_var skip_categorical_var random_seed = Inr out \<longrightarrow>
      (\<exists>p t. out ''fisher_method-combined'' = Some (FisherCombined p t) \<and>
             res_p_value (FisherCombined p t) = p \<and> res_test_statistic (FisherCombined p t) = t)) \<and>
   (collect_tests env (to_csv_wide json) (sample_size_of json) skip_continuous_var
        skip_categorical_var random_seed = Inr ([], out') \<longrightarrow>
      (\<exists>msg. run_test_pipeline env json skip_continuous_var skip_categorical_var random_seed =
         Inl (ValueError msg))) \<and>
   (skip_continuous_var \<and> skip_categorical_var \<longrightarrow>
      (\<exists>msg. run_test_pipeline env json skip_continuous_var skip_categorical_var random_seed =
         Inl (ValueError msg)))"
proof (intro conjI impI)
  assume "run_test_pipeline env json skip_continuous_var skip_categorical_var random_seed = Inr out"
  then obtain pvals out0 where
    "combine_stage env (pvals, out0) = Inr out"
    by (auto simp: run_test_pipeline_def Let_def ebind_Inr_iff split: if_splits)
  then show "\<exists>p t. out ''fisher_method-combined'' = Some (FisherCombined p t) \<and>
             res_p_value (FisherCombined p t) = p \<and> res_test_statistic (FisherCombined p t) = t"
    by (auto simp: combine_stage_def ebind_Inr_iff split: if_splits)
next
  assume "collect_tests env (to_csv_wide json) (sample_size_of json) skip_continuous_var
        skip_categorical_var random_seed = Inr ([], out')"
  then show "\<exists>msg. run_test_pipeline env json skip_continuous_var skip_categorical_var random_seed =
         Inl (ValueError msg)"
    by (simp add: run_test_pipeline_def Let_def combine_stage_def)
next
  assume "skip_continuous_var \<and> skip_categorical_var"
  then show "\<exists>msg. run_test_pipeline env json skip_continuous_var skip_categorical_var random_seed =
         Inl (ValueError msg)"
    by (simp add: run_test_pipeline_def Let_def combine_stage_def collect_tests_def)
qed

section \<open>The records of the Fisher tests\<close>









section \<open>The loop of the z-score engine\<close>



subsection \<open>Column labels\<close>

lemma append_neq_by_rev:
  assumes "take 2 (rev s) \<noteq> take 2 (rev t)" "2 \<le> length s" "2 \<le> length t"
  shows "h @ s \<noteq> g @ t"
proof
  assume "h @ s = g @ t"
  then have "rev (h @ s) = rev (g @ t)" by simp
  then have "take 2 (rev s @ rev h) = take 2 (rev t @ rev g)" by simp
  with assms(2,3) have "take 2 (rev s) = take 2 (rev t)" by simp
  with assms(1) show False by simp
qed

lemma neq_by_rev:
  assumes "take 2 (rev s) \<noteq> take 2 (rev t)" "2 \<le> length s" "2 \<le> length t"
  shows "h @ s \<noteq> t" "t \<noteq> h @ s"
  using append_neq_by_rev [OF assms, of h "[]"] by auto

lemma written_disjoint:
  assumes "h \<noteq> g" "c \<in> inputs g \<union> written g"
  shows "c \<notin> written h"
  using assms
  by (auto simp: inputs_def written_def append_neq_by_rev neq_by_rev)

lemma step_row_other: "c \<notin> written g \<Longrightarrow> step_row g n r c = r c"
  by (auto simp: step_row_def written_def impute_row_def Let_def)

lemma impute_row_cong:
  assumes "\<forall>c \<in> inputs g. r1 c = r2 c"
  shows "impute_row g n r1 (g @ '' (sd)'') = impute_row g n r2 (g @ '' (sd)'')"
  using assms by (simp add: impute_row_def imputed_sd_def inputs_def)

lemma impute_row_inputs:
  assumes "\<forall>c \<in> inputs g. r1 c = r2 c"
  shows "\<forall>c \<in> inputs g. impute_row g n r1 c = impute_row g n r2 c"
  using assms by (auto simp: impute_row_def imputed_sd_def inputs_def)

lemma step_row_cong:
  assumes "\<forall>c \<in> inputs g. r1 c = r2 c" "c \<in> written g"
  shows "step_row g n r1 c = step_row g n r2 c"
proof -
  from impute_row_inputs [OF assms(1)]
  have i: "\<forall>c \<in> inputs g. impute_row g n r1 c = impute_row g n r2 c" .
  then have s: "sem_of g n (impute_row g n r1) = sem_of g n (impute_row g n r2)"
    by (simp add: sem_of_def inputs_def)
  from i s have z: "zscore_of g n (impute_row g n r1) = zscore_of g n (impute_row g n r2)"
    by (simp add: zscore_of_def inputs_def)
  from assms(2) i s z show ?thesis
    by (auto simp: step_row_def written_def Let_def inputs_def)
qed


lemma impute_sd_rows:
  assumes "impute_sd d g n = Inr d'"
  shows "df_rows d' = map (\<lambda>(i, r). (i, impute_row g n r)) (df_rows d) \<and>
         df_columns d' = df_columns d \<and>
         (\<forall>(i, r) \<in> set (df_rows d). \<not> (isna (r (g @ '' (sd)'')) \<and>
            (isna (r (g @ '' (95CI_lower)'')) \<or> isna (r (g @ '' (95CI_upper)'')))))"
proof -
  let ?missing = "filter (\<lambda>(i, r). isna (r (g @ '' (sd)''))) (df_rows d)"
  from assms have
    ok: "\<not> list_ex (\<lambda>(i, r). isna (r (g @ '' (95CI_lower)'')) \<or> isna (r (g @ '' (95CI_upper)'')))
            ?missing" and
    d': "d' = d\<lparr>df_rows := map (\<lambda>(i, r). (i, impute_row g n r)) (df_rows d)\<rparr>"
    by (simp_all add: impute_sd_def Let_def split: if_splits)
  from ok have "\<forall>(i, r) \<in> set (df_rows d). \<not> (isna (r (g @ '' (sd)'')) \<and>
            (isna (r (g @ '' (95CI_lower)'')) \<or> isna (r (g @ '' (95CI_upper)''))))"
    by (auto simp: list_ex_iff)
  with d' show ?thesis by simp
qed

lemma impute_row_id: "\<not> isna (r (g @ '' (sd)'')) \<Longrightarrow> impute_row g n r = r"
  by (simp add: impute_row_def)


lemma group_step_unfold:
  assumes "group_step d g n = Inr d'"
  shows "\<exists>d1. (if list_ex (\<lambda>(i, r). isna (r (g @ '' (sd)''))) (df_rows d)
               then impute_sd d g n else Inr d) = Inr d1 \<and>
           \<not> list_ex (\<lambda>(i, r). sem_of g n r = Fin 0) (df_rows d1) \<and>
           d' = \<lparr>df_columns = add_column (g @ '' (sem)'')
                   (add_column (g @ '' (zscore)'') (df_columns d1)),
                 df_rows = map (\<lambda>(i, r). (i, r(g @ '' (zscore)'' := Num (zscore_of g n r),
                                                g @ '' (sem)'' := Num (sem_of g n r))))
                              (df_rows d1)\<rparr>"
proof -
  from assms have "g @ '' (sd)'' \<in> set (df_columns d)"
    by (simp add: group_step_def Let_def split: if_splits)
  with assms obtain d1 where
    d1: "(if list_ex (\<lambda>(i, r). isna (r (g @ '' (sd)''))) (df_rows d)
               then impute_sd d g n else Inr d) = Inr d1" and
    f: "(if has_str [g @ '' (sd)''] d1 then Inl (TypeError ''unsupported operand type(s)'')
         else if list_ex (\<lambda>(i, r). sem_of g n r = Fin 0) (df_rows d1)
           then Inl (ValueError (sem_is_zero g))
         else if g @ '' (mean)'' \<notin> set (df_columns d1) then Inl (KeyError (g @ '' (mean)''))
         else if ''population_mean'' \<notin> set (df_columns d1)
           then Inl (KeyError ''population_mean'')
         else if has_str [g @ '' (mean)'', ''population_mean''] d1
           then Inl (TypeError ''unsupported operand type(s)'')
         else Inr
               \<lparr>df_columns = add_column (g @ '' (sem)'')
                   (add_column (g @ '' (zscore)'') (df_columns d1)),
                df_rows = map (\<lambda>(i, r). (i, r(g @ '' (zscore)'' := Num (zscore_of g n r),
                                                g @ '' (sem)'' := Num (sem_of g n r))))
                              (df_rows d1)\<rparr>) = Inr d'"
    unfolding group_step_def Let_def by (simp add: ebind_Inr_iff) blast
  from f have "\<not> list_ex (\<lambda>(i, r). sem_of g n r = Fin 0) (df_rows d1)"
    by (simp split: if_splits)
  moreover from f have "d' = \<lparr>df_columns = add_column (g @ '' (sem)'')
                   (add_column (g @ '' (zscore)'') (df_columns d1)),
                 df_rows = map (\<lambda>(i, r). (i, r(g @ '' (zscore)'' := Num (zscore_of g n r),
                                                g @ '' (sem)'' := Num (sem_of g n r))))
                              (df_rows d1)\<rparr>"
    by (simp split: if_splits)
  ultimately show ?thesis using d1 by blast
qed


lemma group_step_Inr:
  assumes "group_step d g n = Inr d'"
  shows "df_rows d' = map (\<lambda>(i, r). (i, step_row g n r)) (df_rows d)"
    and "df_columns d' =
           add_column (g @ '' (sem)'') (add_column (g @ '' (zscore)'') (df_columns d))"
    and "\<forall>(i, r) \<in> set (df_rows d). \<not> (isna (r (g @ '' (sd)'')) \<and>
            (isna (r (g @ '' (95CI_lower)'')) \<or> isna (r (g @ '' (95CI_upper)''))))"
    and "\<forall>(i, r) \<in> set (df_rows d). sem_of g n (impute_row g n r) \<noteq> Fin 0"
proof -
  let ?miss = "list_ex (\<lambda>(i, r). isna (r (g @ '' (sd)''))) (df_rows d)"
  from group_step_unfold [OF assms] obtain d1 where
    d1: "(if ?miss then impute_sd d g n else Inr d) = Inr d1" and
    nz: "\<not> list_ex (\<lambda>(i, r). sem_of g n r = Fin 0) (df_rows d1)" and
    d': "d' = \<lparr>df_columns = add_column (g @ '' (sem)'')
                   (add_column (g @ '' (zscore)'') (df_columns d1)),
               df_rows = map (\<lambda>(i, r). (i, r(g @ '' (zscore)'' := Num (zscore_of g n r),
                                                g @ '' (sem)'' := Num (sem_of g n r))))
                              (df_rows d1)\<rparr>"
    by blast
  have all: "df_rows d1 = map (\<lambda>(i, r). (i, impute_row g n r)) (df_rows d) \<and>
         df_columns d1 = df_columns d \<and>
         (\<forall>(i, r) \<in> set (df_rows d). \<not> (isna (r (g @ '' (sd)'')) \<and>
            (isna (r (g @ '' (95CI_lower)'')) \<or> isna (r (g @ '' (95CI_upper)'')))))"
  proof (cases ?miss)
    case True
    with d1 have "impute_sd d g n = Inr d1" by simp
    then show ?thesis by (rule impute_sd_rows)
  next
    case False
    then have no: "\<forall>(i, r) \<in> set (df_rows d). \<not> isna (r (g @ '' (sd)''))"
      by (auto simp: list_ex_iff)
    from False d1 have "d1 = d" by simp
    moreover have "map (\<lambda>(i, r). (i, impute_row g n r)) (df_rows d) = df_rows d"
      using no by (intro map_idI) (auto simp: impute_row_id)
    ultimately show ?thesis using no by auto
  qed
  then have rows1: "df_rows d1 = map (\<lambda>(i, r). (i, impute_row g n r)) (df_rows d)"
    and cols1: "df_columns d1 = df_columns d" by simp_all
  show "df_rows d' = map (\<lambda>(i, r). (i, step_row g n r)) (df_rows d)"
    by (simp add: d' rows1 step_row_def Let_def case_prod_unfold o_def)
  show "df_columns d' =
           add_column (g @ '' (sem)'') (add_column (g @ '' (zscore)'') (df_columns d))"
    by (simp add: d' cols1)
  show "\<forall>(i, r) \<in> set (df_rows d). \<not> (isna (r (g @ '' (sd)'')) \<and>
            (isna (r (g @ '' (95CI_lower)'')) \<or> isna (r (g @ '' (95CI_upper)''))))"
    using all by simp
  show "\<forall>(i, r) \<in> set (df_rows d). sem_of g n (impute_row g n r) \<noteq> Fin 0"
    using nz by (auto simp: rows1 list_ex_iff)
qed




lemma group_loop_append:
  "group_loop d (xs @ ys) = (case group_loop d xs of Inl e \<Rightarrow> Inl e | Inr d1 \<Rightarrow> group_loop d1 ys)"
  by (induction xs arbitrary: d) (auto split: sum.splits)

lemma group_loop_Cons_Inr:
  assumes "group_loop d ((g, n) # gs) = Inr d'"
  shows "\<exists>d1. group_step d g n = Inr d1 \<and> group_loop d1 gs = Inr d'"
  using assms by (cases "group_step d g n") simp_all

lemma group_loop_rows:
  assumes "group_loop d gs = Inr d'"
  shows "df_rows d' = map (\<lambda>(i, r). (i, fold (\<lambda>(g, n). step_row g n) gs r)) (df_rows d)"
  using assms
proof (induction gs arbitrary: d)
  case Nil
  then show ?case by (simp add: case_prod_unfold)
next
  case (Cons gn gs)
  obtain g n where gn: "gn = (g, n)" by (cases gn)
  with Cons.prems group_loop_Cons_Inr obtain d1 where
    s: "group_step d g n = Inr d1" and l: "group_loop d1 gs = Inr d'"
    by blast
  from Cons.IH [OF l] group_step_Inr(1) [OF s] gn show ?case
    by (simp add: case_prod_unfold o_def)
qed

lemma group_loop_columns:
  assumes "group_loop d gs = Inr d'"
  shows "set (df_columns d) \<subseteq> set (df_columns d') \<and>
         (\<forall>(g, n) \<in> set gs. g @ '' (zscore)'' \<in> set (df_columns d'))"
  using assms
proof (induction gs arbitrary: d)
  case Nil
  then show ?case by simp
next
  case (Cons gn gs)
  obtain g n where gn: "gn = (g, n)" by (cases gn)
  with Cons.prems group_loop_Cons_Inr obtain d1 where
    s: "group_step d g n = Inr d1" and l: "group_loop d1 gs = Inr d'"
    by blast
  have sub: "set (df_columns d) \<subseteq> set (df_columns d1)"
    and z: "g @ '' (zscore)'' \<in> set (df_columns d1)"
    using group_step_Inr(2) [OF s] by (auto simp: add_column_def)
  from Cons.IH [OF l] sub z gn show ?case by auto
qed

lemma fold_step_other:
  assumes "\<forall>(h, k) \<in> set gs. c \<notin> written h"
  shows "fold (\<lambda>(g, n). step_row g n) gs r c = r c"
  using assms
  by (induction gs arbitrary: r) (auto simp: step_row_other)

lemma fold_step_inputs:
  assumes "\<forall>(h, k) \<in> set gs. h \<noteq> g" "c \<in> inputs g \<union> written g"
  shows "fold (\<lambda>(g, n). step_row g n) gs r c = r c"
proof (rule fold_step_other)
  show "\<forall>(h, k) \<in> set gs. c \<notin> written h"
    using assms written_disjoint [of _ g c] by blast
qed

lemma distinct_split:
  assumes "distinct (map fst gs)" "(g, n) \<in> set gs"
  shows "\<exists>before after. gs = before @ (g, n) # after \<and>
           (\<forall>(h, k) \<in> set before. h \<noteq> g) \<and> (\<forall>(h, k) \<in> set after. h \<noteq> g)"
proof -
  from assms(2) obtain before after where gs: "gs = before @ (g, n) # after"
    by (auto simp: in_set_conv_decomp)
  from assms(1) have "g \<notin> fst ` set before" "g \<notin> fst ` set after"
    unfolding gs by auto
  then have "(\<forall>(h, k) \<in> set before. h \<noteq> g) \<and> (\<forall>(h, k) \<in> set after. h \<noteq> g)"
    by (auto simp: image_iff)
  with gs show ?thesis by blast
qed


lemma fold_step_at:
  assumes "distinct (map fst gs)" "(g, n) \<in> set gs" "c \<in> written g"
  shows "fold (\<lambda>(g, n). step_row g n) gs r c = step_row g n r c"
proof -
  from distinct_split [OF assms(1,2)] obtain before after where
    gs: "gs = before @ (g, n) # after" and
    nb: "\<forall>(h, k) \<in> set before. h \<noteq> g" and na: "\<forall>(h, k) \<in> set after. h \<noteq> g"
    by blast
  have b: "\<forall>c \<in> inputs g. fold (\<lambda>(g, n). step_row g n) before r c = r c"
    using fold_step_inputs [OF nb] by simp
  have "fold (\<lambda>(g, n). step_row g n) gs r c =
          step_row g n (fold (\<lambda>(g, n). step_row g n) before r) c"
    using fold_step_inputs [OF na, of c] assms(3) by (simp add: gs)
  also have "\<dots> = step_row g n r c"
    using step_row_cong [OF b assms(3)] .
  finally show ?thesis .
qed

text \<open>The frame on which the step of a group runs agrees with the first frame on the
  columns that the step reads.\<close>

lemma group_loop_reach:
  assumes "group_loop d gs = Inr d'" "distinct (map fst gs)" "(g, n) \<in> set gs"
  shows "\<exists>d1 d2. group_step d1 g n = Inr d2 \<and>
           df_rows d1 = map (\<lambda>(i, r). (i, fold (\<lambda>(g, n). step_row g n)
                                (takeWhile (\<lambda>(h, k). h \<noteq> g) gs) r)) (df_rows d) \<and>
           (\<forall>r. \<forall>c \<in> inputs g.
              fold (\<lambda>(g, n). step_row g n) (takeWhile (\<lambda>(h, k). h \<noteq> g) gs) r c = r c)"
proof -
  from distinct_split [OF assms(2,3)] obtain before after where
    gs: "gs = before @ (g, n) # after" and
    nb: "\<forall>(h, k) \<in> set before. h \<noteq> g"
    by blast
  have tw: "takeWhile (\<lambda>(h, k). h \<noteq> g) gs = before"
    unfolding gs using nb by (subst takeWhile_append2) auto
  from assms(1) obtain d1 where
    b: "group_loop d before = Inr d1" and r: "group_loop d1 ((g, n) # after) = Inr d'"
    unfolding gs group_loop_append by (cases "group_loop d before") simp_all
  from group_loop_Cons_Inr [OF r] obtain d2 where s: "group_step d1 g n = Inr d2" by blast
  have "\<forall>r. \<forall>c \<in> inputs g. fold (\<lambda>(g, n). step_row g n) before r c = r c"
    using fold_step_inputs [OF nb] by simp
  with s group_loop_rows [OF b] show ?thesis
    unfolding tw by blast
qed


lemma start_frame_rows:
  "df_rows (start_frame d) =
     map (\<lambda>(i, r). (i, r(''population_mean'' := Num (row_mean (mean_cols_of d) r))))
       (retained_rows d)"
  by (simp add: start_frame_def assign_column_def)

lemma retained_not_empty: "(i, r) \<in> set (retained_rows d) \<Longrightarrow> \<not> df_empty d"
  by (auto simp: retained_rows_def df_empty_def any_mean_def mean_cols_of_def filter_regex_def)

lemma select_continuous:
  "select_rows (any_mean (mean_cols_of d))
     (select_rows (\<lambda>r. r ''Variable type'' = Str ''Continuous'') d) =
   d\<lparr>df_rows := retained_rows d\<rparr>"
  by (simp add: select_rows_def retained_rows_def case_prod_unfold conj_commute)

lemma mean_cols_select: "mean_cols_of (select_rows keep d) = mean_cols_of d"
  by (simp add: mean_cols_of_def select_rows_def)

lemma engine_unfold:
  assumes "\<not> df_empty d"
  shows "process_continuous_variables_mean (Some d) ss =
     (if ss = [] then Inl (ValueError ''sample_size must not be empty'')
      else if list_ex (\<lambda>(g, s). s \<le> 0) ss
        then Inl (ValueError ''All sample sizes must be positive'')
      else if ''Variable type'' \<notin> set (df_columns d) then Inl (KeyError ''Variable type'')
      else if has_str (mean_cols_of d) (d\<lparr>df_rows := retained_rows d\<rparr>)
        then Inl (TypeError ''unsupported operand type(s)'')
      else ebind (group_loop (start_frame d) ss) (\<lambda>mean_df. Inr (Some mean_df)))"
  using assms
  by (simp add: process_continuous_variables_mean_def select_eq_def Let_def mean_cols_select
      select_continuous start_frame_def)

lemma engine_Inr:
  assumes "process_continuous_variables_mean (Some d) ss = Inr res" "\<not> df_empty d"
  shows "\<exists>d'. res = Some d' \<and> group_loop (start_frame d) ss = Inr d'"
  using assms(1) unfolding engine_unfold [OF assms(2)]
  by (auto simp: ebind_Inr_iff split: if_splits)


lemma start_row_inputs:
  assumes "c \<in> {g @ '' (mean)'', g @ '' (sd)'', g @ '' (95CI_lower)'', g @ '' (95CI_upper)''}"
  shows "(r(''population_mean'' := v)) c = r c"
  using assms by (auto simp: neq_by_rev)

lemma sem_impute_cong:
  assumes "r1 (g @ '' (sd)'') = r2 (g @ '' (sd)'')"
    "r1 (g @ '' (95CI_lower)'') = r2 (g @ '' (95CI_lower)'')"
    "r1 (g @ '' (95CI_upper)'') = r2 (g @ '' (95CI_upper)'')"
  shows "sem_of g n (impute_row g n r1) = sem_of g n (impute_row g n r2)"
  using assms by (simp add: sem_of_def impute_row_def imputed_sd_def)

text \<open>The row on which the step of group \<open>g\<close> runs, for a retained row \<open>r\<close>.\<close>

lemma reach_row:
  assumes "group_loop (start_frame d) ss = Inr d'" "distinct (map fst ss)" "(g, n) \<in> set ss"
    "(i, r) \<in> set (retained_rows d)"
  shows "\<exists>d1 d2 r1. group_step d1 g n = Inr d2 \<and> (i, r1) \<in> set (df_rows d1) \<and>
           r1 (g @ '' (mean)'') = r (g @ '' (mean)'') \<and>
           r1 (g @ '' (sd)'') = r (g @ '' (sd)'') \<and>
           r1 (g @ '' (95CI_lower)'') = r (g @ '' (95CI_lower)'') \<and>
           r1 (g @ '' (95CI_upper)'') = r (g @ '' (95CI_upper)'')"
proof -
  let ?f = "fold (\<lambda>(g, n). step_row g n) (takeWhile (\<lambda>(h, k). h \<noteq> g) ss)"
  let ?r0 = "r(''population_mean'' := Num (row_mean (mean_cols_of d) r))"
  from group_loop_reach [OF assms(1-3)] obtain d1 d2 where
    s: "group_step d1 g n = Inr d2" and
    rows: "df_rows d1 = map (\<lambda>(i, r). (i, ?f r)) (df_rows (start_frame d))" and
    same: "\<forall>r. \<forall>c \<in> inputs g. ?f r c = r c"
    by blast
  have "(i, ?r0) \<in> set (df_rows (start_frame d))"
    using assms(4) by (force simp: start_frame_rows)
  then have mem: "(i, ?f ?r0) \<in> set (df_rows d1)"
    unfolding rows by force
  have "\<forall>c \<in> {g @ '' (mean)'', g @ '' (sd)'', g @ '' (95CI_lower)'', g @ '' (95CI_upper)''}.
          ?f ?r0 c = r c"
  proof
    fix c assume c: "c \<in> {g @ '' (mean)'', g @ '' (sd)'', g @ '' (95CI_lower)'',
                          g @ '' (95CI_upper)''}"
    then have "c \<in> inputs g" by (auto simp: inputs_def)
    with same have "?f ?r0 c = ?r0 c" by blast
    also have "\<dots> = r c" using c by (rule start_row_inputs)
    finally show "?f ?r0 c = r c" .
  qed
  with s mem show ?thesis by (intro exI [of _ d1] exI [of _ d2] exI [of _ "?f ?r0"]) simp
qed


section \<open>The z-score engine\<close>

lemma isna_cell_float: "isna c \<Longrightarrow> cell_float c = NaN"
  by (cases c rule: notna.cases) (auto simp: isna_def cell_float_def elim: isnan.elims)

lemma final_rows:
  assumes "group_loop (start_frame d) ss = Inr d'"
  shows "df_rows d' =
           map (\<lambda>(i, r). (i, fold (\<lambda>(g, n). step_row g n) ss
                  (r(''population_mean'' := Num (row_mean (mean_cols_of d) r)))))
             (retained_rows d)"
  using group_loop_rows [OF assms] by (simp add: start_frame_rows case_prod_unfold o_def)


lemma final_zscore_nan:
  assumes "distinct (map fst ss)" "(g, n) \<in> set ss" "isna (r (g @ '' (mean)''))"
  shows "fold (\<lambda>(g, n). step_row g n) ss (r(''population_mean'' := v)) (g @ '' (zscore)'') =
           Num NaN"
proof -
  let ?r0 = "r(''population_mean'' := v)"
  have m: "impute_row g n ?r0 (g @ '' (mean)'') = r (g @ '' (mean)'')"
    by (simp add: impute_row_def append_neq_by_rev neq_by_rev)
  have "fold (\<lambda>(g, n). step_row g n) ss ?r0 (g @ '' (zscore)'') =
          step_row g n ?r0 (g @ '' (zscore)'')"
    using assms by (intro fold_step_at) (simp_all add: written_def)
  also have "\<dots> = Num (zscore_of g n (impute_row g n ?r0))"
    by (simp add: step_row_def Let_def append_neq_by_rev)
  also have "\<dots> = Num NaN"
    using assms(3) by (simp add: zscore_of_def m isna_cell_float fsub_def)
  finally show ?thesis .
qed


text \<open>
  Claim C6.  When, on a retained row, the standard deviation of a group (as reported,
  or as imputed from the confidence interval) divided by the square root of the sample
  size of the group is zero, the z-score engine fails and returns no frame.
\<close>

theorem zero_sem_fails:
  assumes "distinct (map fst sample_size)" "(g, n) \<in> set sample_size"
    and "(i, r) \<in> set (retained_rows d)"
    and "sem_of g n (impute_row g n r) = Fin 0"
  shows "\<exists>e. process_continuous_variables_mean (Some d) sample_size = Inl e"
proof (cases "process_continuous_variables_mean (Some d) sample_size")
  case (Inl e)
  then show ?thesis by blast
next
  case (Inr res)
  from engine_Inr [OF Inr retained_not_empty [OF assms(3)]] obtain d' where
    loop: "group_loop (start_frame d) sample_size = Inr d'" by blast
  from reach_row [OF loop assms(1-3)] obtain d1 d2 r1 where
    s: "group_step d1 g n = Inr d2" and mem: "(i, r1) \<in> set (df_rows d1)" and
    eq: "r1 (g @ '' (sd)'') = r (g @ '' (sd)'')"
        "r1 (g @ '' (95CI_lower)'') = r (g @ '' (95CI_lower)'')"
        "r1 (g @ '' (95CI_upper)'') = r (g @ '' (95CI_upper)'')"
    by blast
  from group_step_Inr(4) [OF s] mem have "sem_of g n (impute_row g n r1) \<noteq> Fin 0" by auto
  with sem_impute_cong [OF eq] assms(4) show ?thesis by simp
qed






lemma sublist_zscore: "sublist ''zscore'' (g @ '' (zscore)'')"
proof -
  have "g @ '' (zscore)'' = (g @ '' ('') @ ''zscore'' @ '')''" by simp
  then show ?thesis unfolding sublist_def by blast
qed

lemma zscores_member:
  assumes "(i, r) \<in> set (df_rows d)" "c \<in> set (df_columns d)" "sublist ''zscore'' c"
  shows "r c \<in> set (zscores_of d)"
  using assms by (force simp: zscores_of_def filter_regex_def)

lemma chi_square_nan:
  assumes "Num NaN \<in> set zs"
  shows "\<exists>e. chi_square_variance_test cdf zs sigma0 = Inl e"
    and "2 \<le> length zs \<Longrightarrow> \<not> list_ex is_str zs \<Longrightarrow>
           chi_square_variance_test cdf zs sigma0 =
             Inl (ValueError ''zscores contains NaN or infinite values'')"
proof -
  from assms have n: "list_ex cell_nan_or_inf zs"
    by (auto simp: list_ex_iff intro: bexI [of _ "Num NaN"])
  then show "\<exists>e. chi_square_variance_test cdf zs sigma0 = Inl e"
    by (simp add: chi_square_variance_test_def)
  show "chi_square_variance_test cdf zs sigma0 =
             Inl (ValueError ''zscores contains NaN or infinite values'')"
    if "2 \<le> length zs" "\<not> list_ex is_str zs"
    using that n by (auto simp: chi_square_variance_test_def)
qed

lemma distinct_foldl_dict_set:
  "distinct (map fst acc) \<Longrightarrow> distinct (map fst (foldl dict_set acc kvs))"
  by (induction kvs arbitrary: acc) (simp_all add: dict_set_def distinct_update)

lemma distinct_sample_size_of: "distinct (map fst (sample_size_of json))"
  by (simp add: sample_size_of_def distinct_foldl_dict_set)

lemma missing_mean_engine:
  assumes "distinct (map fst ss)" "(g, n) \<in> set ss"
    and "(i, r) \<in> set (retained_rows d)" "isna (r (g @ '' (mean)''))"
    and "process_continuous_variables_mean (Some d) ss = Inr res"
  shows "\<exists>d'. res = Some d' \<and> map fst (df_rows d') = map fst (retained_rows d) \<and>
           (\<exists>r'. (i, r') \<in> set (df_rows d') \<and> r' (g @ '' (zscore)'') = Num NaN) \<and>
           Num NaN \<in> set (zscores_of d')"
proof -
  from engine_Inr [OF assms(5) retained_not_empty [OF assms(3)]] obtain d' where
    res: "res = Some d'" and loop: "group_loop (start_frame d) ss = Inr d'" by blast
  let ?r' = "fold (\<lambda>(g, n). step_row g n) ss
               (r(''population_mean'' := Num (row_mean (mean_cols_of d) r)))"
  have idx: "map fst (df_rows d') = map fst (retained_rows d)"
    unfolding final_rows [OF loop] by (simp add: case_prod_unfold o_def)
  have mem: "(i, ?r') \<in> set (df_rows d')"
    unfolding final_rows [OF loop] using assms(3) by force
  have nan: "?r' (g @ '' (zscore)'') = Num NaN"
    using assms(1,2,4) by (rule final_zscore_nan)
  have col: "g @ '' (zscore)'' \<in> set (df_columns d')"
    using group_loop_columns [OF loop] assms(2) by auto
  from zscores_member [OF mem col sublist_zscore] nan
  have "Num NaN \<in> set (zscores_of d')" by simp
  with res idx mem nan show ?thesis by blast
qed

text \<open>
  Claim C10.  Let a row of the wide table be retained (it is continuous and has a mean
  present) and lack the mean of a declared group.  Then a frame that the z-score engine
  returns keeps exactly the retained rows and holds NaN as the z-score of that group on
  that row; the chi-squared variance test raises on the z-scores of that frame, with
  the error about NaN when the array has at least two numeric entries; and the
  pipeline, when the continuous test is not skipped, raises an error.
\<close>

theorem missing_mean_fails:
  assumes "(g, n) \<in> set (sample_size_of json)"
    and "(i, r) \<in> set (retained_rows (to_csv_wide json))"
    and "isna (r (g @ '' (mean)''))"
  shows "(\<forall>res. process_continuous_variables_mean (Some (to_csv_wide json)) (sample_size_of json)
              = Inr res \<longrightarrow>
            (\<exists>d'. res = Some d' \<and>
               map fst (df_rows d') = map fst (retained_rows (to_csv_wide json)) \<and>
               (\<exists>r'. (i, r') \<in> set (df_rows d') \<and> r' (g @ '' (zscore)'') = Num NaN) \<and>
               (\<exists>e. chi_square_variance_test (chi2_cdf env) (zscores_of d') 1 = Inl e) \<and>
               (2 \<le> length (zscores_of d') \<and> \<not> list_ex is_str (zscores_of d') \<longrightarrow>
                  chi_square_variance_test (chi2_cdf env) (zscores_of d') 1 =
                    Inl (ValueError ''zscores contains NaN or infinite values'')))) \<and>
         (\<exists>e. run_test_pipeline env json False skip_categorical_var random_seed = Inl e)"
proof (intro conjI allI impI)
  fix res
  assume run: "process_continuous_variables_mean (Some (to_csv_wide json)) (sample_size_of json)
                 = Inr res"
  from missing_mean_engine [OF distinct_sample_size_of assms run] obtain d' where
    d': "res = Some d'" "map fst (df_rows d') = map fst (retained_rows (to_csv_wide json))"
      "\<exists>r'. (i, r') \<in> set (df_rows d') \<and> r' (g @ '' (zscore)'') = Num NaN"
      "Num NaN \<in> set (zscores_of d')"
    by blast
  from chi_square_nan [OF d'(4)] d'(1-3)
  show "\<exists>d'. res = Some d' \<and>
               map fst (df_rows d') = map fst (retained_rows (to_csv_wide json)) \<and>
               (\<exists>r'. (i, r') \<in> set (df_rows d') \<and> r' (g @ '' (zscore)'') = Num NaN) \<and>
               (\<exists>e. chi_square_variance_test (chi2_cdf env) (zscores_of d') 1 = Inl e) \<and>
               (2 \<le> length (zscores_of d') \<and> \<not> list_ex is_str (zscores_of d') \<longrightarrow>
                  chi_square_variance_test (chi2_cdf env) (zscores_of d') 1 =
                    Inl (ValueError ''zscores contains NaN or infinite values''))"
    by blast
next
  let ?df = "to_csv_wide json" and ?ss = "sample_size_of json"
  have cont: "\<exists>e. continuous_stage env ?df ?ss = Inl e"
  proof (cases "process_continuous_variables_mean (Some ?df) ?ss")
    case (Inl e)
    then show ?thesis by (simp add: continuous_stage_def)
  next
    case (Inr res)
    from missing_mean_engine [OF distinct_sample_size_of assms Inr] obtain d' r' where
      res: "res = Some d'" and mem: "(i, r') \<in> set (df_rows d')" and
      nan: "Num NaN \<in> set (zscores_of d')"
      by blast
    from mem have len: "0 < df_len d'" by (auto simp: df_len_def)
    from nan have zl: "0 < length (zscores_of d')" by (cases "zscores_of d'") auto
    from chi_square_nan(1) [OF nan] obtain e where
      "chi_square_variance_test (chi2_cdf env) (zscores_of d') 1 = Inl e" by blast
    with Inr res len zl show ?thesis
      by (simp add: continuous_stage_def Let_def)
  qed
  then obtain e where "continuous_stage env ?df ?ss = Inl e" by blast
  then show "\<exists>e. run_test_pipeline env json False skip_categorical_var random_seed = Inl e"
    by (simp add: run_test_pipeline_def Let_def collect_tests_def)
qed

section \<open>Concrete runs\<close>

lemmas wide_defs = to_csv_wide_def DataFrame_def wide_record_def value_fields_def dict_set_def
  first_seen_def level_str_def to_numeric_def to_numeric_as_int_def

lemma smoker_frame:
  "to_csv_wide json_smoker =
     \<lparr>df_columns = map fst smoker_record, df_rows = [(0, record_cells smoker_record)]\<rparr>"
  by (simp add: wide_defs json_smoker_def count_entry_def smoker_record_def)

lemma smoker_cells:
  "record_cells smoker_record ''Variable'' = Str ''smoker (Yes)''"
  "record_cells smoker_record ''Variable type'' = Str ''Categorical''"
  "record_cells smoker_record ''treatment (count)'' = Num (Fin 12)"
  "record_cells smoker_record ''control (count)'' = Num (Fin 15)"
  by (simp_all add: record_cells_def smoker_record_def)

lemma smoker_count_cols:
  "count_cols_of (to_csv_wide json_smoker) = [''treatment (count)'', ''control (count)'']"
  by (simp add: smoker_frame count_cols_of_def filter_regex_def smoker_record_def sublist_code)

lemma smoker_sample_size:
  "sample_size_of json_smoker = [(''treatment'', 50), (''control'', 50)]"
  by (simp add: sample_size_of_def json_smoker_def dict_set_def)

lemma smoker_not_empty: "\<not> df_empty (to_csv_wide json_smoker)"
  by (simp add: smoker_frame df_empty_def smoker_record_def)

lemma smoker_categorical:
  "process_categorical_variables (Some (to_csv_wide json_smoker)) 100 =
     Inr (Some \<lparr>df_columns = map fst smoker_record @ [''population_rate''],
                df_rows = [(0, (record_cells smoker_record)
                                 (''population_rate'' := Num (Fin (27 / 100))))]\<rparr>)"
proof -
  have cc: "filter_regex ''count'' (map fst smoker_record) =
              [''treatment (count)'', ''control (count)'']"
    by (simp add: filter_regex_def smoker_record_def sublist_code)
  have vt: "''Variable type'' \<in> set (map fst smoker_record)"
    "''population_rate'' \<notin> set (map fst smoker_record)"
    "smoker_record \<noteq> []"
    by (simp_all add: smoker_record_def)
  show ?thesis
    using vt
    by (simp add: smoker_frame process_categorical_variables_def df_empty_def select_eq_def
        select_rows_def count_cols_of_def cc counts_complete_def has_str_def smoker_cells
        assign_column_def add_column_def population_rate_def row_sum_def present_values_def
        cell_float_def Let_def)
qed

lemma fisher_key_0: "fisher_key 0 = ''fisher_test-0''"
  by (simp add: fisher_key_def digit_char_def)

lemma smoker_table:
  "contingency_table_binary [(''treatment'', 12), (''control'', 15)]
     (map_of [(''treatment'', 50), (''control'', 50)]) = Inr [[12, 38], [15, 35]]"
  by (simp add: store_int64_def int64_fits_def)

lemma smoker_collect:
  "collect_tests scipy_stand_in (to_csv_wide json_smoker) [(''treatment'', 50), (''control'', 50)]
     True False None =
   Inr ([Fin 1], [''fisher_test-0'' \<mapsto>
           FisherTest (Fin 1) (Fin 1) [[12, 38], [15, 35]] (Str ''smoker (Yes)'') True])"
proof -
  have cols: "''Variable'' \<in> set (map fst smoker_record @ [''population_rate''])"
    "''treatment (count)'' \<in> set (map fst smoker_record @ [''population_rate''])"
    "''control (count)'' \<in> set (map fst smoker_record @ [''population_rate''])"
    by (simp_all add: smoker_record_def)
  show ?thesis
    using cols
    by (simp add: collect_tests_def categorical_stage_def smoker_sample_size
        total_sample_size_of_def smoker_categorical df_len_def method_exact_fisher_def
        row_get_def smoker_cells count_of_cell_def store_int64_def int64_fits_def
        fisher_exact_def scipy_stand_in_def fisher_key_0)
qed

lemma smoker_run:
  "run_test_pipeline scipy_stand_in json_smoker True False None =
   Inr ([''fisher_test-0'' \<mapsto>
           FisherTest (Fin 1) (Fin 1) [[12, 38], [15, 35]] (Str ''smoker (Yes)'') True,
         ''fisher_method-combined'' \<mapsto> FisherCombined (Fin 1) (Fin 0)])"
  by (simp add: run_test_pipeline_def Let_def smoker_collect combine_stage_def valid_pvalue_def
      smoker_sample_size total_sample_size_of_def)
    (simp add: scipy_stand_in_def fun_upd_twist)

lemma smoker_collect_skipped:
  "collect_tests scipy_stand_in (to_csv_wide json_smoker) ss True True None =
     Inr ([], Map.empty)"
  by (simp add: collect_tests_def)

theorem run_test_pipeline_combined_witness:
  "(\<exists>out p t. run_test_pipeline scipy_stand_in json_smoker True False None = Inr out \<and>
      out ''fisher_method-combined'' = Some (FisherCombined p t)) \<and>
   collect_tests scipy_stand_in (to_csv_wide json_smoker) (sample_size_of json_smoker)
     True True None = Inr ([], Map.empty) \<and>
   (\<exists>msg. run_test_pipeline scipy_stand_in json_smoker True True None = Inl (ValueError msg))"
  using run_test_pipeline_combined [of scipy_stand_in json_smoker True False None
      "[''fisher_test-0'' \<mapsto>
           FisherTest (Fin 1) (Fin 1) [[12, 38], [15, 35]] (Str ''smoker (Yes)'') True,
         ''fisher_method-combined'' \<mapsto> FisherCombined (Fin 1) (Fin 0)]"]
    run_test_pipeline_combined [of scipy_stand_in json_smoker True True None _ Map.empty]
  by (simp add: smoker_run smoker_collect_skipped)


lemma discount_frame:
  "to_csv_wide json_discount =
     \<lparr>df_columns = map fst discount_record, df_rows = [(0, record_cells discount_record)]\<rparr>"
  by (simp add: wide_defs json_discount_def count_entry_def discount_record_def)

lemma discount_cells:
  "record_cells discount_record ''Variable type'' = Str ''Categorical''"
  "record_cells discount_record ''discount (count)'' = Num (Fin 12)"
  "record_cells discount_record ''control (count)'' = Num (Fin 15)"
  "record_cells discount_record ''discount (mean)'' = Num NaN"
  by (simp_all add: record_cells_def discount_record_def)

lemma discount_count_cols:
  "filter_regex ''count'' (map fst discount_record) =
     [''discount (original)'', ''discount (mean)'', ''discount (median)'', ''discount (count)'',
      ''discount (IQR_lower)'', ''discount (IQR_upper)'', ''discount (95CI_lower)'',
      ''discount (95CI_upper)'', ''discount (sd)'', ''discount (pvalue)'', ''control (count)'']"
  by (simp add: filter_regex_def discount_record_def sublist_code)

text \<open>
  Claim C8 fails on the code.  The pattern \<open>(count)\<close> is a group of a regular
  expression and selects every label in which \<open>count\<close> occurs.  In the wide table of an
  extraction with a group named \<open>discount\<close>, all the columns of that group are selected:
  the categorical row that reports the count of both groups, 12 and 15, is left out of
  the result for its missing cell under \<open>discount (mean)\<close>, and the result has no row.
\<close>

theorem process_categorical_variables_discount:
  "process_categorical_variables (Some (to_csv_wide json_discount)) 100 =
     Inr (Some \<lparr>df_columns = map fst discount_record @ [''population_rate''], df_rows = []\<rparr>) \<and>
   df_rows (to_csv_wide json_discount) = [(0, record_cells discount_record)] \<and>
   record_cells discount_record ''Variable type'' = Str ''Categorical'' \<and>
   record_cells discount_record ''discount (count)'' = Num (Fin 12) \<and>
   record_cells discount_record ''control (count)'' = Num (Fin 15)"
proof -
  have vt: "''Variable type'' \<in> set (map fst discount_record)"
    "''population_rate'' \<notin> set (map fst discount_record)"
    "discount_record \<noteq> []"
    by (simp_all add: discount_record_def)
  have "process_categorical_variables (Some (to_csv_wide json_discount)) 100 =
     Inr (Some \<lparr>df_columns = map fst discount_record @ [''population_rate''], df_rows = []\<rparr>)"
    using vt
    by (simp add: discount_frame process_categorical_variables_def df_empty_def select_eq_def
        select_rows_def count_cols_of_def discount_count_cols counts_complete_def has_str_def
        discount_cells assign_column_def add_column_def Let_def)
  then show ?thesis by (simp add: discount_frame discount_cells)
qed

theorem process_categorical_variables_positive_witness:
  "process_categorical_variables (Some (to_csv_wide json_smoker)) 0 =
     Inl (ValueError ''total_sample_size must be positive'') \<and>
   process_categorical_variables (Some \<lparr>df_columns = [''Variable''], df_rows = []\<rparr>) (- 10) =
     Inr (Some \<lparr>df_columns = [''Variable''], df_rows = []\<rparr>) \<and>
   process_categorical_variables None 0 = Inr None"
  using process_categorical_variables_positive [of "to_csv_wide json_smoker" 0]
    process_categorical_variables_positive
      [of "\<lparr>df_columns = [''Variable''], df_rows = []\<rparr>" "- 10"]
    smoker_not_empty
  by (simp add: df_empty_def)


lemma age_cells:
  "record_cells (age_record sd lo hi) ''Variable type'' = Str ''Continuous''"
  "record_cells (age_record sd lo hi) ''group_1 (mean)'' = Num (Fin 60)"
  "record_cells (age_record sd lo hi) ''group_1 (sd)'' = sd"
  "record_cells (age_record sd lo hi) ''group_1 (95CI_lower)'' = lo"
  "record_cells (age_record sd lo hi) ''group_1 (95CI_upper)'' = hi"
  "record_cells (age_record sd lo hi) ''group_2 (mean)'' = Num (Fin 58)"
  "record_cells (age_record sd lo hi) ''group_2 (sd)'' = Num (Fin 9)"
  by (simp_all add: record_cells_def age_record_def)

lemma age_columns:
  "df_columns (age_frame sd lo hi) =
     [''Variable'', ''Variable type'', ''group_1 (mean)'', ''group_1 (sd)'',
      ''group_1 (95CI_lower)'', ''group_1 (95CI_upper)'', ''group_2 (mean)'', ''group_2 (sd)'']"
  by (simp add: age_frame_def age_record_def)

lemma age_mean_cols:
  "mean_cols_of (age_frame sd lo hi) = [''group_1 (mean)'', ''group_2 (mean)'']"
  by (simp add: mean_cols_of_def filter_regex_def age_columns sublist_code)

lemma age_retained:
  "retained_rows (age_frame sd lo hi) = [(0, record_cells (age_record sd lo hi))]"
  by (simp add: retained_rows_def age_mean_cols any_mean_def age_cells)
    (simp add: age_frame_def age_cells)



theorem zero_sem_fails_witness:
  "sem_of ''group_1'' 50 (impute_row ''group_1'' 50
     (record_cells (age_record (Num (Fin 0)) (Num NaN) (Num NaN)))) = Fin 0 \<and>
   (\<exists>e. process_continuous_variables_mean
          (Some (age_frame (Num (Fin 0)) (Num NaN) (Num NaN))) two_groups = Inl e)"
proof -
  have z: "sem_of ''group_1'' 50 (impute_row ''group_1'' 50
     (record_cells (age_record (Num (Fin 0)) (Num NaN) (Num NaN)))) = Fin 0"
    by (simp add: sem_of_def impute_row_def age_cells isna_def cell_float_def sqrt_n_def)
  have "\<exists>e. process_continuous_variables_mean
          (Some (age_frame (Num (Fin 0)) (Num NaN) (Num NaN))) two_groups = Inl e"
    by (rule zero_sem_fails [of two_groups "''group_1''" 50 0
          "record_cells (age_record (Num (Fin 0)) (Num NaN) (Num NaN))"])
      (simp_all add: two_groups_def age_retained z)
  with z show ?thesis by simp
qed




lemma age_wide_frame:
  "to_csv_wide json_age =
     \<lparr>df_columns = map fst age_wide_record, df_rows = [(0, record_cells age_wide_record)]\<rparr>"
  by (simp add: wide_defs json_age_def age_entry_def age_wide_record_def)

lemma age_wide_cells:
  "record_cells age_wide_record ''Variable type'' = Str ''Continuous''"
  "record_cells age_wide_record ''treatment (mean)'' = Num (Fin 45.2)"
  "record_cells age_wide_record ''control (mean)'' = Num NaN"
  "record_cells age_wide_record ''treatment (sd)'' = Num (Fin 10.1)"
  "record_cells age_wide_record ''control (sd)'' = Num (Fin 9.8)"
  by (simp_all add: record_cells_def age_wide_record_def)

lemma age_wide_mean_cols:
  "mean_cols_of (to_csv_wide json_age) = [''treatment (mean)'', ''control (mean)'']"
  by (simp add: mean_cols_of_def filter_regex_def age_wide_frame age_wide_record_def sublist_code)

lemma age_wide_retained:
  "retained_rows (to_csv_wide json_age) = [(0, record_cells age_wide_record)]"
  by (simp add: retained_rows_def age_wide_mean_cols any_mean_def)
    (simp add: age_wide_frame age_wide_cells)

lemma age_wide_sample_size: "sample_size_of json_age = [(''treatment'', 50), (''control'', 50)]"
  by (simp add: sample_size_of_def json_age_def dict_set_def)

lemma age_wide_not_empty: "\<not> df_empty (to_csv_wide json_age)"
  by (simp add: df_empty_def age_wide_frame age_wide_record_def)

lemma age_wide_columns:
  "''Variable type'' \<in> set (map fst age_wide_record)"
  "''treatment (mean)'' \<in> set (map fst age_wide_record)"
  "''treatment (sd)'' \<in> set (map fst age_wide_record)"
  "''control (mean)'' \<in> set (map fst age_wide_record)"
  "''control (sd)'' \<in> set (map fst age_wide_record)"
  "''population_mean'' \<notin> set (map fst age_wide_record)"
  "''treatment (zscore)'' \<notin> set (map fst age_wide_record)"
  "''treatment (sem)'' \<notin> set (map fst age_wide_record)"
  "''control (zscore)'' \<notin> set (map fst age_wide_record)"
  "''control (sem)'' \<notin> set (map fst age_wide_record)"
  by (simp_all add: age_wide_record_def)

lemma age_wide_start:
  "start_frame (to_csv_wide json_age) =
     \<lparr>df_columns = map fst age_wide_record @ [''population_mean''],
      df_rows = [(0, (record_cells age_wide_record)(''population_mean'' := Num (Fin 45.2)))]\<rparr>"
  using age_wide_columns
  by (simp add: start_frame_def assign_column_def age_wide_retained age_wide_mean_cols
      add_column_def row_mean_def row_sum_def present_values_def age_wide_cells cell_float_def)
    (simp add: age_wide_frame)

lemma age_wide_run:
  "\<exists>d'. process_continuous_variables_mean (Some (to_csv_wide json_age))
          [(''treatment'', 50), (''control'', 50)] = Inr (Some d')"
  using age_wide_columns
  by (simp add: engine_unfold [OF age_wide_not_empty] has_str_def
      age_wide_retained age_wide_mean_cols age_wide_cells age_wide_start group_step_def
      isna_def sem_of_def cell_float_def sqrt_n_def add_column_def Let_def)
    (simp add: age_wide_frame)

theorem missing_mean_fails_witness:
  "(\<exists>d'. process_continuous_variables_mean (Some (to_csv_wide json_age)) (sample_size_of json_age) =
           Inr (Some d') \<and>
         (\<exists>r'. (0, r') \<in> set (df_rows d') \<and> r' ''control (zscore)'' = Num NaN) \<and>
         (\<exists>e. chi_square_variance_test (chi2_cdf scipy_stand_in) (zscores_of d') 1 = Inl e)) \<and>
   (\<exists>e. run_test_pipeline scipy_stand_in json_age False True None = Inl e)"
proof -
  from age_wide_run obtain d' where
    run: "process_continuous_variables_mean (Some (to_csv_wide json_age))
            (sample_size_of json_age) = Inr (Some d')"
    by (auto simp: age_wide_sample_size)
  have T: "(\<forall>res. process_continuous_variables_mean (Some (to_csv_wide json_age))
              (sample_size_of json_age) = Inr res \<longrightarrow>
            (\<exists>d'. res = Some d' \<and>
               map fst (df_rows d') = map fst (retained_rows (to_csv_wide json_age)) \<and>
               (\<exists>r'. (0, r') \<in> set (df_rows d') \<and> r' (''control'' @ '' (zscore)'') = Num NaN) \<and>
               (\<exists>e. chi_square_variance_test (chi2_cdf scipy_stand_in) (zscores_of d') 1 = Inl e) \<and>
               (2 \<le> length (zscores_of d') \<and> \<not> list_ex is_str (zscores_of d') \<longrightarrow>
                  chi_square_variance_test (chi2_cdf scipy_stand_in) (zscores_of d') 1 =
                    Inl (ValueError ''zscores contains NaN or infinite values'')))) \<and>
         (\<exists>e. run_test_pipeline scipy_stand_in json_age False True None = Inl e)"
    by (rule missing_mean_fails [of "''control''" 50 json_age 0 "record_cells age_wide_record"])
      (simp_all add: age_wide_sample_size age_wide_retained age_wide_cells isna_def)
  from T run show ?thesis by auto
qed


end
